theory Spec2Isabelle
  imports Main "HOL-Library.Sublist"
begin

section \<open>Values, configuration objects and errors\<close>

text \<open>
  The module \<^verbatim>\<open>source/badges.js\<close> exports a table of generator functions. Each of them
  takes one configuration object, destructures the properties it knows and returns a
  string of markup, or throws \<^verbatim>\<open>new Error(message)\<close>.

  Strings are lists of code units; the model covers the code units below 256, which is
  what \<^typ>\<open>char\<close> holds. A property that the JSDoc types as \<^verbatim>\<open>{string}\<close> is a
  \<^typ>\<open>string option\<close>, with \<^term>\<open>None\<close> for \<^verbatim>\<open>undefined\<close> (the property is not there).
  The one property typed \<^verbatim>\<open>{String|Object}\<close>, \<^verbatim>\<open>nodeicoQueryString\<close>, holds a \<open>jsval\<close>, any
  value of the language.
\<close>

text \<open>
  The values of the language, as far as this module can tell them apart.
  \<^item> A number is written as the text that the language converts it to: \<open>JNumber ''2''\<close>,
    \<open>JNumber ''-0.5''\<close>, \<open>JNumber ''1e+21''\<close>, \<open>JNumber ''NaN''\<close>, \<open>JNumber ''Infinity''\<close>.
    Different numbers have different texts, but for the two zeros, which are both
    \<open>JNumber ''0''\<close> and which nothing here distinguishes.
  \<^item> A function carries its source text, a symbol nothing.
  \<^item> An array is the list of its elements.
  \<^item> Any other object is the list of its own enumerable string-keyed properties, in
    the order of their creation, with distinct keys.
\<close>

datatype jsval =
    JUndefined
  | JNull
  | JBoolean bool
  | JNumber string
  | JBigInt int
  | JString string
  | JSymbol
  | JFunction string
  | JArray "jsval list"
  | JObject "(string \<times> jsval) list"

text \<open>
  The only exception the module throws is \<^verbatim>\<open>Error\<close>, carrying its message. \<^verbatim>\<open>TypeError\<close> is
  what the language throws when a symbol is converted to a string.
\<close>

datatype error = Error string | TypeError string

record opts =
  image' :: "string option"
  alt :: "string option"
  url :: "string option"
  title :: "string option"
  left :: "string option"
  right :: "string option"
  color :: "string option"
  npmPackageName :: "string option"
  nodeicoQueryString :: jsval
  githubSlug :: "string option"
  saucelabsUsername :: "string option"
  saucelabsAuthToken :: "string option"
  codeshipProjectUUID :: "string option"
  codeshipProjectID :: "string option"
  sixtydevstipsID :: "string option"
  sixtydevstipsURL :: "string option"
  patreonUsername :: "string option"
  patreonURL :: "string option"
  opencollectiveUsername :: "string option"
  opencollectiveURL :: "string option"
  gratipayUsername :: "string option"
  gratipayURL :: "string option"
  flattrCode :: "string option"
  flattrUsername :: "string option"
  flattrURL :: "string option"
  paypalURL :: "string option"
  paypalButtonID :: "string option"
  paypalUsername :: "string option"
  cryptoURL :: "string option"
  bitcoinURL :: "string option"
  wishlistURL :: "string option"
  buymeacoffeeUsername :: "string option"
  buymeacoffeeURL :: "string option"
  liberapayUsername :: "string option"
  liberapayURL :: "string option"
  slackinURL :: "string option"
  gaTrackingID :: "string option"
  homepage :: "string option"
  facebookApplicationID :: "string option"
  facebookUsername :: "string option"
  twitterUsername :: "string option"
  githubUsername :: "string option"
  quoraUsername :: "string option"
  quoraRealname :: "string option"
  quoraCode :: "string option"

text \<open>The object \<^verbatim>\<open>{}\<close>: every property is \<^verbatim>\<open>undefined\<close>.\<close>

definition empty_opts :: opts where
  "empty_opts = \<lparr>
     image' = None, alt = None, url = None, title = None,
     left = None, right = None, color = None,
     npmPackageName = None, nodeicoQueryString = JUndefined, githubSlug = None,
     saucelabsUsername = None, saucelabsAuthToken = None,
     codeshipProjectUUID = None, codeshipProjectID = None,
     sixtydevstipsID = None, sixtydevstipsURL = None,
     patreonUsername = None, patreonURL = None,
     opencollectiveUsername = None, opencollectiveURL = None,
     gratipayUsername = None, gratipayURL = None,
     flattrCode = None, flattrUsername = None, flattrURL = None,
     paypalURL = None, paypalButtonID = None, paypalUsername = None,
     cryptoURL = None, bitcoinURL = None, wishlistURL = None,
     buymeacoffeeUsername = None, buymeacoffeeURL = None,
     liberapayUsername = None, liberapayURL = None,
     slackinURL = None, gaTrackingID = None, homepage = None,
     facebookApplicationID = None, facebookUsername = None,
     twitterUsername = None, githubUsername = None,
     quoraUsername = None, quoraRealname = None, quoraCode = None \<rparr>"

text \<open>The two variables of \<^verbatim>\<open>process.env\<close> that the module reads.\<close>

record env =
  SAUCELABS_AUTH_TOKEN :: "string option"
  FACEBOOK_APPLICATION_ID :: "string option"

subsection \<open>The language's own operations\<close>

text \<open>
  \<^verbatim>\<open>if (x)\<close> and \<^verbatim>\<open>!x\<close> on a string-or-undefined: \<^verbatim>\<open>undefined\<close> and the empty string are
  falsy, every other string is truthy.
\<close>

definition truthy :: "string option \<Rightarrow> bool" where
  "truthy v = (case v of None \<Rightarrow> False | Some s \<Rightarrow> s \<noteq> [])"

text \<open>\<^verbatim>\<open>a || b\<close>\<close>

definition or_else :: "string option \<Rightarrow> string option \<Rightarrow> string option" where
  "or_else a b = (if truthy a then a else b)"

text \<open>\<^verbatim>\<open>${x}\<close> inside a template literal.\<close>

definition str :: "string option \<Rightarrow> string" where
  "str v = (case v of None \<Rightarrow> ''undefined'' | Some s \<Rightarrow> s)"

text \<open>
  Decimal numerals, as the language writes a bigint or the index of an array element.
  \<open>show_digits\<close> is for the integers from 0 on.
\<close>

definition digit :: "int \<Rightarrow> char" where
  "digit n = ''0123456789'' ! nat (n mod 10)"

function show_digits :: "int \<Rightarrow> string" where
  "show_digits n = (if n < 10 then [digit n] else show_digits (n div 10) @ [digit n])"
  by pat_completeness auto
termination
  by (relation "measure nat") auto

declare show_digits.simps [simp del]

definition show_int :: "int \<Rightarrow> string" where
  "show_int i = (if i < 0 then CHR ''-'' # show_digits (- i) else show_digits i)"

definition index_keys :: "nat \<Rightarrow> string list" where
  "index_keys n = map (\<lambda>i. show_int (int i)) [0..<n]"

text \<open>Truthiness and \<^verbatim>\<open>typeof\<close>. The falsy numbers are the zeros and \<^verbatim>\<open>NaN\<close>.\<close>

definition js_truthy :: "jsval \<Rightarrow> bool" where
  "js_truthy v =
     (case v of
        JUndefined \<Rightarrow> False
      | JNull \<Rightarrow> False
      | JBoolean b \<Rightarrow> b
      | JNumber t \<Rightarrow> t \<noteq> ''0'' \<and> t \<noteq> ''NaN''
      | JBigInt i \<Rightarrow> i \<noteq> 0
      | JString s \<Rightarrow> s \<noteq> []
      | JSymbol \<Rightarrow> True
      | JFunction src \<Rightarrow> True
      | JArray xs \<Rightarrow> True
      | JObject props \<Rightarrow> True)"

definition typeof :: "jsval \<Rightarrow> string" where
  "typeof v =
     (case v of
        JUndefined \<Rightarrow> ''undefined''
      | JNull \<Rightarrow> ''object''
      | JBoolean b \<Rightarrow> ''boolean''
      | JNumber t \<Rightarrow> ''number''
      | JBigInt i \<Rightarrow> ''bigint''
      | JString s \<Rightarrow> ''string''
      | JSymbol \<Rightarrow> ''symbol''
      | JFunction src \<Rightarrow> ''function''
      | JArray xs \<Rightarrow> ''object''
      | JObject props \<Rightarrow> ''object'')"

text \<open>
  \<^verbatim>\<open>${v}\<close> inside a template literal. A symbol throws; an array is its elements joined
  with commas, \<^verbatim>\<open>null\<close> and \<^verbatim>\<open>undefined\<close> elements written as nothing; an object that has
  no conversion of its own is \<^verbatim>\<open>[object Object]\<close>.
\<close>

fun js_str :: "jsval \<Rightarrow> error + string"
  and join_elements :: "jsval list \<Rightarrow> error + string" where
  "js_str JUndefined = Inr ''undefined''"
| "js_str JNull = Inr ''null''"
| "js_str (JBoolean b) = Inr (if b then ''true'' else ''false'')"
| "js_str (JNumber t) = Inr t"
| "js_str (JBigInt i) = Inr (show_int i)"
| "js_str (JString s) = Inr s"
| "js_str JSymbol = Inl (TypeError ''Cannot convert a Symbol value to a string'')"
| "js_str (JFunction src) = Inr src"
| "js_str (JArray xs) = join_elements xs"
| "js_str (JObject props) = Inr ''[object Object]''"
| "join_elements [] = Inr []"
| "join_elements (x # xs) =
     (case (if x = JNull \<or> x = JUndefined then Inr [] else js_str x) of
        Inl e \<Rightarrow> Inl e
      | Inr s \<Rightarrow>
         (case join_elements xs of
            Inl e \<Rightarrow> Inl e
          | Inr r \<Rightarrow> Inr (if xs = [] then s else s @ '','' @ r)))"

text \<open>Two upper-case hexadecimal digits of a code unit.\<close>

definition hex_digit :: "nat \<Rightarrow> char" where
  "hex_digit n = ''0123456789ABCDEF'' ! (n mod 16)"

definition percent :: "nat \<Rightarrow> string" where
  "percent n = [CHR ''%'', hex_digit (n div 16), hex_digit n]"

definition alphanumeric :: "char \<Rightarrow> bool" where
  "alphanumeric c =
     (c \<in> set ''ABCDEFGHIJKLMNOPQRSTUVWXYZabcdefghijklmnopqrstuvwxyz0123456789'')"

text \<open>
  The global \<^verbatim>\<open>escape\<close> (ECMAScript, Annex B): letters, digits and \<^verbatim>\<open>@*_+-./\<close> are kept,
  every other code unit below 256 becomes \<^verbatim>\<open>%XX\<close>.
\<close>

definition escape_unit :: "char \<Rightarrow> string" where
  "escape_unit c =
     (if alphanumeric c \<or> c \<in> set ''@*_+-./'' then [c] else percent (of_char c))"

definition escape :: "string \<Rightarrow> string" where
  "escape s = concat (map escape_unit s)"

text \<open>
  \<^verbatim>\<open>querystring.escape\<close> of Node: letters, digits and \<^verbatim>\<open>!'()*-._~\<close> are kept, every
  other code unit is written as the percent-encoded bytes of its UTF-8 form: one byte
  below 128, two bytes from 128 to 255.
\<close>

definition qs_unescaped :: "char \<Rightarrow> bool" where
  "qs_unescaped c = (alphanumeric c \<or> c \<in> set (CHR 0x27 # ''!()*-._~''))"

definition qs_escape_unit :: "char \<Rightarrow> string" where
  "qs_escape_unit c =
     (let n = (of_char c :: nat) in
      if n < 128 then (if qs_unescaped c then [c] else percent n)
      else percent (192 + n div 64) @ percent (128 + n mod 64))"

definition qs_escape :: "string \<Rightarrow> string" where
  "qs_escape s = concat (map qs_escape_unit s)"

text \<open>
  \<^verbatim>\<open>Object.keys(obj)\<close> lists the own enumerable string keys of an object: first the
  keys that are array indices, in ascending numeric order, then the other keys in the
  order of their creation. An array index is the canonical decimal numeral of an integer
  from 0 to 4294967294: digits only, no leading zero. The model orders the properties
  themselves, key with value. The properties of an array are its elements under their
  indices.
\<close>

definition numeric_value :: "string \<Rightarrow> int" where
  "numeric_value s = foldl (\<lambda>n c. 10 * n + (of_char c - 48)) 0 s"

definition array_index :: "string \<Rightarrow> int option" where
  "array_index s =
     (if s \<noteq> [] \<and> list_all (\<lambda>c. c \<in> set ''0123456789'') s
         \<and> (s = ''0'' \<or> hd s \<noteq> CHR ''0'') \<and> numeric_value s < 4294967295
      then Some (numeric_value s) else None)"

definition own_property_order :: "(string \<times> jsval) list \<Rightarrow> (string \<times> jsval) list" where
  "own_property_order props =
     sort_key (\<lambda>(k, v). the (array_index k)) (filter (\<lambda>(k, v). array_index k \<noteq> None) props)
     @ filter (\<lambda>(k, v). array_index k = None) props"

definition properties :: "jsval \<Rightarrow> (string \<times> jsval) list" where
  "properties obj =
     (case obj of
        JObject props \<Rightarrow> props
      | JArray xs \<Rightarrow> zip (index_keys (length xs)) xs
      | _ \<Rightarrow> [])"

text \<open>
  \<^verbatim>\<open>querystring.stringify(obj)\<close> of Node with the default separators and escape. A value
  is written by \<^verbatim>\<open>encodeStringified\<close>: a string escaped, a finite number as its text, a
  bigint as its numeral, a boolean as \<^verbatim>\<open>true\<close> or \<^verbatim>\<open>false\<close>, anything else as the empty
  string. (Node escapes the text of a number only from \<^verbatim>\<open>1e21\<close> on, where it holds a
  \<^verbatim>\<open>+\<close>; below that the text has only digits, \<^verbatim>\<open>-\<close>, \<^verbatim>\<open>.\<close> and \<^verbatim>\<open>e\<close>, which escaping keeps.)
\<close>

definition is_finite :: "string \<Rightarrow> bool" where
  "is_finite t = (t \<noteq> ''NaN'' \<and> t \<noteq> ''Infinity'' \<and> t \<noteq> ''-Infinity'')"

definition encode_stringified :: "jsval \<Rightarrow> string" where
  "encode_stringified v =
     (case v of
        JString s \<Rightarrow> (if s \<noteq> [] then qs_escape s else [])
      | JNumber t \<Rightarrow> (if is_finite t then qs_escape t else [])
      | JBigInt i \<Rightarrow> show_int i
      | JBoolean b \<Rightarrow> (if b then ''true'' else ''false'')
      | _ \<Rightarrow> [])"

text \<open>
  The loop over the keys. For a value that is an array it skips an empty one, and
  otherwise writes the key once for each element, in the inner loop; for any other value
  it writes the key and the value. \<^verbatim>\<open>&\<close> is written before a field when something has been
  written already. \<^verbatim>\<open>null\<close> and what is not an object give the empty string.
\<close>

fun array_loop :: "string \<Rightarrow> string \<Rightarrow> nat \<Rightarrow> jsval list \<Rightarrow> string" where
  "array_loop out ks j [] = out"
| "array_loop out ks j (x # xs) =
     array_loop ((if j \<noteq> 0 then out @ ''&'' else out) @ ks @ encode_stringified x)
       ks (Suc j) xs"

fun stringify_loop :: "string \<Rightarrow> (string \<times> jsval) list \<Rightarrow> string" where
  "stringify_loop out [] = out"
| "stringify_loop out ((k, v) # kvs) =
     (let ks = qs_escape k @ ''='' in
      case v of
        JArray xs \<Rightarrow>
          if xs = [] then stringify_loop out kvs
          else stringify_loop (array_loop (if out \<noteq> [] then out @ ''&'' else out) ks 0 xs) kvs
      | _ \<Rightarrow>
          stringify_loop
            ((if out \<noteq> [] then out @ ''&'' else out) @ ks @ encode_stringified v) kvs)"

definition stringify :: "jsval \<Rightarrow> string" where
  "stringify obj =
     (if obj \<noteq> JNull \<and> typeof obj = ''object''
      then stringify_loop [] (own_property_order (properties obj))
      else [])"

text \<open>
  \<^verbatim>\<open>s.split('/')\<close>: the pieces between the separators, never an empty array.
  \<^verbatim>\<open>a[i]\<close> is \<^verbatim>\<open>undefined\<close> past the end.
\<close>

fun split_on :: "char \<Rightarrow> string \<Rightarrow> string list" where
  "split_on sep [] = [[]]"
| "split_on sep (c # cs) =
     (if c = sep then [] # split_on sep cs
      else (case split_on sep cs of
              [] \<Rightarrow> [[c]]
            | w # ws \<Rightarrow> (c # w) # ws))"

definition index :: "string list \<Rightarrow> nat \<Rightarrow> string option" where
  "index a i = (if i < length a then Some (a ! i) else None)"

text \<open>\<^verbatim>\<open>s.replace(/-/g, ' ')\<close>\<close>

definition replace_dashes :: "string \<Rightarrow> string" where
  "replace_dashes s = map (\<lambda>c. if c = CHR ''-'' then CHR '' '' else c) s"

text \<open>
  \<^verbatim>\<open>s.replace(/\n\s*/g, '')\<close>: every line feed goes, with all the white space that
  follows it. The flag says that the scan is inside a match. White space below 256 is the
  code units 9 to 13, 32 and 160.
\<close>

definition is_space :: "char \<Rightarrow> bool" where
  "is_space c = (c \<in> set [CHR 0x09, CHR 0x0A, CHR 0x0B, CHR 0x0C, CHR 0x0D, CHR 0x20, CHR 0xA0])"

fun remove_breaks :: "bool \<Rightarrow> string \<Rightarrow> string" where
  "remove_breaks inside [] = []"
| "remove_breaks inside (c # cs) =
     (if c = CHR 0x0A then remove_breaks True cs
      else if inside \<and> is_space c then remove_breaks True cs
      else c # remove_breaks False cs)"

section \<open>Custom badges\<close>

definition badge :: "opts \<Rightarrow> error + string" where
  \<open>badge opts =
     (if \<not> truthy (image' opts) then Inl (Error ''image is missing'')
      else
        let result =
              (if truthy (alt opts)
               then ''<img src="'' @ str (image' opts) @ ''" alt="'' @ str (alt opts) @ ''" />''
               else ''<img src="'' @ str (image' opts) @ ''" />'');
            result =
              (if truthy (url opts)
               then (if truthy (title opts)
                     then ''<a href="'' @ str (url opts) @ ''" title="'' @ str (title opts) @ ''">''
                     else ''<a href="'' @ str (url opts) @ ''">'')
                    @ result @ ''</a>''
               else result)
        in Inr result)\<close>

text \<open>The object literal \<^verbatim>\<open>{ image, alt, url, title }\<close> that the generators hand to \<open>badge\<close>.\<close>

definition descriptor :: "string \<Rightarrow> string option \<Rightarrow> string option \<Rightarrow> string option \<Rightarrow> opts" where
  "descriptor i a u t = empty_opts\<lparr>image' := Some i, alt := a, url := u, title := t\<rparr>"

definition shields :: "opts \<Rightarrow> error + string" where
  \<open>shields opts =
     (let color = (case color opts of None \<Rightarrow> Some ''yellow'' | Some c \<Rightarrow> Some c) in
      if \<not> truthy (left opts) then Inl (Error ''left is missing'')
      else if \<not> truthy (right opts) then Inl (Error ''right is missing'')
      else
        let image = ''https://img.shields.io/badge/'' @ str (left opts) @ ''-''
                      @ str (right opts) @ ''-'' @ str color @ ''.svg''
        in badge (descriptor image (alt opts) (url opts) (title opts)))\<close>

section \<open>Development badges\<close>

definition npmversion :: "opts \<Rightarrow> error + string" where
  \<open>npmversion opts =
     (if \<not> truthy (npmPackageName opts) then Inl (Error ''npmPackageName is missing'')
      else
        let image = ''https://img.shields.io/npm/v/'' @ str (npmPackageName opts)
                     @ ''.svg'';
            url = ''https://npmjs.org/package/'' @ str (npmPackageName opts);
            alt = ''NPM version'';
            title = ''View this project on NPM''
        in badge (descriptor image (Some alt) (Some url) (Some title)))\<close>

definition npmdownloads :: "opts \<Rightarrow> error + string" where
  \<open>npmdownloads opts =
     (if \<not> truthy (npmPackageName opts) then Inl (Error ''npmPackageName is missing'')
      else
        let image = ''https://img.shields.io/npm/dm/'' @ str (npmPackageName opts)
                     @ ''.svg'';
            url = ''https://npmjs.org/package/'' @ str (npmPackageName opts);
            alt = ''NPM downloads'';
            title = ''View this project on NPM''
        in badge (descriptor image (Some alt) (Some url) (Some title)))\<close>

definition daviddm :: "opts \<Rightarrow> error + string" where
  \<open>daviddm opts =
     (if \<not> truthy (githubSlug opts) then Inl (Error ''githubSlug is missing'')
      else
        let image = ''https://img.shields.io/david/'' @ str (githubSlug opts)
                     @ ''.svg'';
            url = ''https://david-dm.org/'' @ str (githubSlug opts);
            alt = ''Dependency Status'';
            title = ''View the status of this project's dependencies on DavidDM''
        in badge (descriptor image (Some alt) (Some url) (Some title)))\<close>

definition daviddmdev :: "opts \<Rightarrow> error + string" where
  \<open>daviddmdev opts =
     (if \<not> truthy (githubSlug opts) then Inl (Error ''githubSlug is missing'')
      else
        let image = ''https://img.shields.io/david/dev/'' @ str (githubSlug opts)
                     @ ''.svg'';
            url = ''https://david-dm.org/'' @ str (githubSlug opts)
                   @ ''#info=devDependencies'';
            alt = ''Dev Dependency Status'';
            title = ''View the status of this project's development dependencies on DavidDM''
        in badge (descriptor image (Some alt) (Some url) (Some title)))\<close>

definition nodeico :: "opts \<Rightarrow> error + string" where
  \<open>nodeico opts =
     (if \<not> truthy (npmPackageName opts) then Inl (Error ''npmPackageName is missing'')
      else if js_truthy (nodeicoQueryString opts)
              \<and> typeof (nodeicoQueryString opts) \<noteq> ''string''
              \<and> typeof (nodeicoQueryString opts) \<noteq> ''object''
      then Inl (Error ''nodeicoQueryString must be a string or an object'')
      else
        let url = ''https://www.npmjs.com/package/'' @ str (npmPackageName opts);
            alt = ''Nodei.co badge'';
            title = ''Nodei.co badge'';
            image = ''https://nodei.co/npm/'' @ str (npmPackageName opts) @ ''.png'';
            query = (if typeof (nodeicoQueryString opts) = ''object''
                     then JString (stringify (nodeicoQueryString opts))
                     else nodeicoQueryString opts)
        in case (if js_truthy query
                 then (case js_str query of
                         Inl e \<Rightarrow> Inl e
                       | Inr s \<Rightarrow> Inr (image @ ''?'' @ s))
                 else Inr image) of
             Inl e \<Rightarrow> Inl e
           | Inr image \<Rightarrow> badge (descriptor image (Some alt) (Some url) (Some title)))\<close>

section \<open>Testing badges\<close>

text \<open>
  The two Sauce Labs generators overwrite \<^verbatim>\<open>saucelabsAuthToken\<close> with
  \<^verbatim>\<open>saucelabsAuthToken || process.env.SAUCELABS_AUTH_TOKEN\<close>; the primed name is the
  parameter after that assignment.
\<close>

definition saucelabsbm :: "env \<Rightarrow> opts \<Rightarrow> error + string" where
  \<open>saucelabsbm env opts =
     (if \<not> truthy (saucelabsUsername opts) then Inl (Error ''saucelabsUsername is missing'')
      else
        let saucelabsAuthToken' = or_else (saucelabsAuthToken opts) (SAUCELABS_AUTH_TOKEN env)
        in
          if \<not> truthy saucelabsAuthToken' then Inl (Error ''saucelabsAuthToken is missing'')
          else
            let image = ''https://saucelabs.com/browser-matrix/''
                        @ str (saucelabsUsername opts) @ ''.svg?auth=''
                        @ escape (str saucelabsAuthToken');
                url = ''https://saucelabs.com/u/'' @ str (saucelabsUsername opts);
                alt = ''Sauce Labs Browser Matrix'';
                title = ''Check this project's browser tests on Sauce Labs''
            in badge (descriptor image (Some alt) (Some url) (Some title)))\<close>

definition saucelabs :: "env \<Rightarrow> opts \<Rightarrow> error + string" where
  \<open>saucelabs env opts =
     (if \<not> truthy (saucelabsUsername opts) then Inl (Error ''saucelabsUsername is missing'')
      else
        let saucelabsAuthToken' = or_else (saucelabsAuthToken opts) (SAUCELABS_AUTH_TOKEN env)
        in
          if \<not> truthy saucelabsAuthToken' then Inl (Error ''saucelabsAuthToken is missing'')
          else
            let image = ''https://saucelabs.com/browser-matrix/''
                        @ str (saucelabsUsername opts) @ ''.svg?auth=''
                        @ escape (str saucelabsAuthToken');
                url = ''https://saucelabs.com/u/'' @ str (saucelabsUsername opts);
                alt = ''Sauce Labs Browser Matrix'';
                title = ''Check this project's browser tests on Sauce Labs''
            in badge (descriptor image (Some alt) (Some url) (Some title)))\<close>

definition travisci :: "opts \<Rightarrow> error + string" where
  \<open>travisci opts =
     (if \<not> truthy (githubSlug opts) then Inl (Error ''githubSlug is missing'')
      else
        let image = ''https://img.shields.io/travis/'' @ str (githubSlug opts)
                     @ ''/master.svg'';
            url = ''http://travis-ci.org/'' @ str (githubSlug opts);
            alt = ''Travis CI Build Status'';
            title = ''Check this project's build status on TravisCI''
        in badge (descriptor image (Some alt) (Some url) (Some title)))\<close>

definition codeship :: "opts \<Rightarrow> error + string" where
  \<open>codeship opts =
     (if \<not> truthy (codeshipProjectUUID opts) then Inl (Error ''codeshipProjectUUID is missing'')
      else if \<not> truthy (codeshipProjectID opts) then Inl (Error ''codeshipProjectID is missing'')
      else
        let image = ''https://img.shields.io/codeship/''
                    @ str (codeshipProjectUUID opts) @ ''/master.svg'';
            url = ''https://www.codeship.io/projects/'' @ str (codeshipProjectID opts);
            alt = ''Codeship Status'';
            title = ''Check this project's status on Codeship''
        in badge (descriptor image (Some alt) (Some url) (Some title)))\<close>

definition coveralls :: "opts \<Rightarrow> error + string" where
  \<open>coveralls opts =
     (if \<not> truthy (githubSlug opts) then Inl (Error ''githubSlug is missing'')
      else
        let image = ''https://img.shields.io/coveralls/'' @ str (githubSlug opts)
                     @ ''.svg'';
            url = ''https://coveralls.io/r/'' @ str (githubSlug opts);
            alt = ''Coveralls Coverage Status'';
            title = ''View this project's coverage on Coveralls''
        in badge (descriptor image (Some alt) (Some url) (Some title)))\<close>

definition codeclimate :: "opts \<Rightarrow> error + string" where
  \<open>codeclimate opts =
     (if \<not> truthy (githubSlug opts) then Inl (Error ''githubSlug is missing'')
      else
        let image = ''https://img.shields.io/codeclimate/github/''
                     @ str (githubSlug opts) @ ''.svg'';
            url = ''https://codeclimate.com/github/'' @ str (githubSlug opts);
            alt = ''Code Climate Rating'';
            title = ''View this project's rating on Code Climate''
        in badge (descriptor image (Some alt) (Some url) (Some title)))\<close>

definition bithound :: "opts \<Rightarrow> error + string" where
  \<open>bithound opts =
     (if \<not> truthy (githubSlug opts) then Inl (Error ''githubSlug is missing'')
      else
        let image = ''https://bithound.io/github/'' @ str (githubSlug opts)
                     @ ''/badges/score.svg'';
            url = ''https://bithound.io/github/'' @ str (githubSlug opts);
            alt = ''BitHound Score'';
            title = ''View this project's score on BitHound''
        in badge (descriptor image (Some alt) (Some url) (Some title)))\<close>

definition waffle :: "opts \<Rightarrow> error + string" where
  \<open>waffle opts =
     (if \<not> truthy (githubSlug opts) then Inl (Error ''githubSlug is missing'')
      else
        let label = ''ready'';
            image = ''https://badge.waffle.io/'' @ str (githubSlug opts)
                    @ ''.png?label='' @ escape label;
            url = ''http://waffle.io/'' @ str (githubSlug opts);
            alt = ''Stories in Ready'';
            title = ''View this project's stories on Waffle.io''
        in badge (descriptor image (Some alt) (Some url) (Some title)))\<close>

section \<open>Funding badges\<close>

text \<open>
  The generators with alternatives overwrite their URL parameter when it is falsy; the
  primed name is the parameter after that assignment, and an error thrown on the way
  ends the call.
\<close>

definition sixtydevstips :: "opts \<Rightarrow> error + string" where
  \<open>sixtydevstips opts =
     (case (if \<not> truthy (sixtydevstipsURL opts)
            then (if \<not> truthy (sixtydevstipsID opts) then Inl (Error ''sixtydevstipsID is missing'')
                  else Inr (Some (''https://tips.60devs.com/tip/''
                             @ str (sixtydevstipsID opts))))
            else Inr (sixtydevstipsURL opts)) of
        Inl e \<Rightarrow> Inl e
      | Inr sixtydevstipsURL' \<Rightarrow>
          let image = ''https://img.shields.io/badge/60devs-donate-yellow.svg'';
              url = sixtydevstipsURL';
              alt = ''60devs tips donate button'';
              title = ''Donate to this project using 60devs tips''
          in badge (descriptor image (Some alt) url (Some title)))\<close>

definition patreon :: "opts \<Rightarrow> error + string" where
  \<open>patreon opts =
     (case (if \<not> truthy (patreonURL opts)
            then (if \<not> truthy (patreonUsername opts) then Inl (Error ''patreonUsername is missing'')
                  else Inr (Some (''https://patreon.com/'' @ str (patreonUsername opts))))
            else Inr (patreonURL opts)) of
        Inl e \<Rightarrow> Inl e
      | Inr patreonURL' \<Rightarrow>
          let image = ''https://img.shields.io/badge/patreon-donate-yellow.svg'';
              url = patreonURL';
              alt = ''Patreon donate button'';
              title = ''Donate to this project using Patreon''
          in badge (descriptor image (Some alt) url (Some title)))\<close>

definition opencollective :: "opts \<Rightarrow> error + string" where
  \<open>opencollective opts =
     (case (if \<not> truthy (opencollectiveURL opts)
            then (if \<not> truthy (opencollectiveUsername opts) then Inl (Error ''opencollectiveUsername is missing'')
                  else Inr (Some (''https://opencollective.com/''
                             @ str (opencollectiveUsername opts))))
            else Inr (opencollectiveURL opts)) of
        Inl e \<Rightarrow> Inl e
      | Inr opencollectiveURL' \<Rightarrow>
          let image = ''https://img.shields.io/badge/open%20collective-donate-yellow.svg'';
              url = opencollectiveURL';
              alt = ''Open Collective donate button'';
              title = ''Donate to this project using Open Collective''
          in badge (descriptor image (Some alt) url (Some title)))\<close>

definition gratipay :: "opts \<Rightarrow> error + string" where
  \<open>gratipay opts =
     (case (if \<not> truthy (gratipayURL opts)
            then (if \<not> truthy (gratipayUsername opts) then Inl (Error ''gratipayUsername is missing'')
                  else Inr (Some (''https://gratipay.com/'' @ str (gratipayUsername opts))))
            else Inr (gratipayURL opts)) of
        Inl e \<Rightarrow> Inl e
      | Inr gratipayURL' \<Rightarrow>
          let image = ''https://img.shields.io/badge/gratipay-donate-yellow.svg'';
              url = gratipayURL';
              alt = ''Gratipay donate button'';
              title = ''Donate weekly to this project using Gratipay''
          in badge (descriptor image (Some alt) url (Some title)))\<close>

definition flattr :: "opts \<Rightarrow> error + string" where
  \<open>flattr opts =
     (case (if \<not> truthy (flattrURL opts)
            then (if truthy (flattrUsername opts)
                  then Inr (Some (''https://flattr.com/profile/'' @ str (flattrUsername opts)))
                  else if truthy (flattrCode opts)
                  then Inr (Some (''https://flattr.com/thing/'' @ str (flattrCode opts)))
                  else Inl (Error
                         (''flattrUsername/flattrCode is missing'')))
            else Inr (flattrURL opts)) of
        Inl e \<Rightarrow> Inl e
      | Inr flattrURL' \<Rightarrow>
          let image = ''https://img.shields.io/badge/flattr-donate-yellow.svg'';
              url = flattrURL';
              alt = ''Flattr donate button'';
              title = ''Donate to this project using Flattr''
          in badge (descriptor image (Some alt) url (Some title)))\<close>

definition paypal :: "opts \<Rightarrow> error + string" where
  \<open>paypal opts =
     (case (if \<not> truthy (paypalURL opts)
            then (if truthy (paypalButtonID opts)
                  then Inr (Some (''https://www.paypal.com/cgi-bin/webscr?cmd=_s-xclick&amp;''
                             @ ''hosted_button_id=''
                             @ escape (str (paypalButtonID opts))))
                  else if truthy (paypalUsername opts)
                  then Inr (Some (''https://paypal.me/'' @ str (paypalUsername opts)))
                  else Inl (Error
                         (''paypalURL, paypalButtonID, or paypalUsername is missing,''
                          @ '' at least one must exist'')))
            else Inr (paypalURL opts)) of
        Inl e \<Rightarrow> Inl e
      | Inr paypalURL' \<Rightarrow>
          let image = ''https://img.shields.io/badge/paypal-donate-yellow.svg'';
              url = paypalURL';
              alt = ''PayPal donate button'';
              title = ''Donate to this project using Paypal''
          in badge (descriptor image (Some alt) url (Some title)))\<close>

definition crypto :: "opts \<Rightarrow> error + string" where
  \<open>crypto opts =
     (let url = or_else (cryptoURL opts) (bitcoinURL opts) in
      if \<not> truthy url then Inl (Error ''cryptoURL is missing'')
      else
        let image = ''https://img.shields.io/badge/crypto-donate-yellow.svg'';
            alt = ''crypto donate button'';
            title = ''Donate to this project using Cryptocurrency''
        in badge (descriptor image (Some alt) url (Some title)))\<close>

definition bitcoin :: "opts \<Rightarrow> error + string" where
  "bitcoin opts = crypto opts"

definition wishlist :: "opts \<Rightarrow> error + string" where
  \<open>wishlist opts =
     (if \<not> truthy (wishlistURL opts) then Inl (Error ''wishlistURL is missing'')
      else
        let image = ''https://img.shields.io/badge/wishlist-donate-yellow.svg'';
            url = wishlistURL opts;
            alt = ''Wishlist browse button'';
            title = ''Buy an item on our wishlist for us''
        in badge (descriptor image (Some alt) url (Some title)))\<close>

definition buymeacoffee :: "opts \<Rightarrow> error + string" where
  \<open>buymeacoffee opts =
     (case (if \<not> truthy (buymeacoffeeURL opts)
            then (if \<not> truthy (buymeacoffeeUsername opts) then Inl (Error ''buymeacoffeeUsername is missing'')
                  else Inr (Some (''https://buymeacoffee.com/''
                             @ str (buymeacoffeeUsername opts))))
            else Inr (buymeacoffeeURL opts)) of
        Inl e \<Rightarrow> Inl e
      | Inr buymeacoffeeURL' \<Rightarrow>
          let image = ''https://img.shields.io/badge/buy%20me%20a%20coffee-donate-yellow.svg'';
              url = buymeacoffeeURL';
              alt = ''Buy Me A Coffee donate button'';
              title = ''Donate to this project using Buy Me A Coffee''
          in badge (descriptor image (Some alt) url (Some title)))\<close>

definition liberapay :: "opts \<Rightarrow> error + string" where
  \<open>liberapay opts =
     (case (if \<not> truthy (liberapayURL opts)
            then (if \<not> truthy (liberapayUsername opts) then Inl (Error ''liberapayUsername is missing'')
                  else Inr (Some (''https://liberapay.com/'' @ str (liberapayUsername opts))))
            else Inr (liberapayURL opts)) of
        Inl e \<Rightarrow> Inl e
      | Inr liberapayURL' \<Rightarrow>
          let image = ''https://img.shields.io/badge/liberapay-donate-yellow.svg'';
              url = liberapayURL';
              alt = ''Liberapay donate button'';
              title = ''Donate to this project using Liberapay''
          in badge (descriptor image (Some alt) url (Some title)))\<close>

definition thanksapp :: "opts \<Rightarrow> error + string" where
  \<open>thanksapp opts =
     (if \<not> truthy (githubSlug opts) \<and> \<not> truthy (npmPackageName opts)
      then Inl (Error
             (''githubSlug and npmPackageName are missing, at least one ''
              @ ''is required''))
      else
        let slug = (if truthy (npmPackageName opts)
                    then ''npm/'' @ str (npmPackageName opts)
                    else ''github/'' @ str (githubSlug opts));
            image = ''https://img.shields.io/badge/thanksapp-donate-yellow.svg'';
            url = ''https://givethanks.app/donate/'' @ slug;
            alt = ''Thanks App donate button'';
            title = ''Donate to this project using Thanks App''
        in badge (descriptor image (Some alt) (Some url) (Some title)))\<close>

definition boostlab :: "opts \<Rightarrow> error + string" where
  \<open>boostlab opts =
     (if \<not> truthy (githubSlug opts) then Inl (Error ''githubSlug is missing'')
      else
        let image = ''https://img.shields.io/badge/boostlab-donate-yellow.svg'';
            url = ''https://boost-lab.app/'' @ str (githubSlug opts);
            alt = ''Boost Lab donate button'';
            title = ''Donate to this project using Boost Lab''
        in badge (descriptor image (Some alt) (Some url) (Some title)))\<close>

section \<open>Social badges\<close>

definition slackinscript :: "opts \<Rightarrow> error + string" where
  \<open>slackinscript opts =
     (if \<not> truthy (slackinURL opts) then Inl (Error ''slackinURL is missing'')
      else Inr (''<script async defer src="'' @ str (slackinURL opts)
                @ ''/slackin.js"></script>''))\<close>

definition slackin :: "opts \<Rightarrow> error + string" where
  \<open>slackin opts =
     (if \<not> truthy (slackinURL opts) then Inl (Error ''slackinURL is missing'')
      else
        let image = str (slackinURL opts) @ ''/badge.svg'';
            url = slackinURL opts;
            alt = ''Slack community badge'';
            title = ''Join this project's slack community''
        in badge (descriptor image (Some alt) url (Some title)))\<close>

definition gabeacon :: "opts \<Rightarrow> error + string" where
  \<open>gabeacon opts =
     (if \<not> truthy (gaTrackingID opts) then Inl (Error ''gaTrackingID is missing'')
      else if \<not> truthy (githubSlug opts) then Inl (Error ''githubSlug is missing'')
      else
        let image = ''https://ga-beacon.appspot.com/'' @ str (gaTrackingID opts) @ ''/''
                    @ str (githubSlug opts);
            url = ''https://github.com/igrigorik/ga-beacon'';
            alt = ''Google Analytics beacon image'';
            title = ''Get Google Analytics for your project''
        in badge (descriptor image (Some alt) (Some url) (Some title)))\<close>

definition googleplusone :: "opts \<Rightarrow> error + string" where
  \<open>googleplusone opts =
     (if \<not> truthy (homepage opts) then Inl (Error ''homepage is missing'')
      else Inr (''<span class="g-plusone" data-size="medium" data-href="''
                @ str (homepage opts)
                @ ''"></span><script>(function() {var po = document.createElement('script');''
                @ '' po.type = 'text/javascript'; po.async = true; po.src =''
                @ '' '//apis.google.com/js/plusone.js'; var s = ''
                @ ''document.getElementsByTagName('script')[0]; ''
                @ ''s.parentNode.insertBefore(po, s);})();</script>''))\<close>

definition redditsubmit :: "opts \<Rightarrow> error + string" where
  \<open>redditsubmit opts =
     (if \<not> truthy (homepage opts) then Inl (Error ''homepage is missing'')
      else Inr (''<script>reddit_url="'' @ str (homepage opts)
                @ ''"</script><script src="https://en.reddit.com/static/button/button1.js">''
                @ ''</script>''))\<close>

definition hackernewssubmit :: "opts \<Rightarrow> error + string" where
  \<open>hackernewssubmit opts =
     (if \<not> truthy (homepage opts) then Inl (Error ''homepage is missing'')
      else Inr (''<a href="https://news.ycombinator.com/submit" class="hn-button" ''
                @ ''data-url="'' @ str (homepage opts)
                @ ''" data-count="horizontal">Vote on Hacker News</a><script>var HN=[];''
                @ ''HN.factory=function(e){return function(){HN.push([e].concat(Array.protot''
                @ ''ype.slice.call(arguments,0)))};},HN.on=HN.factory("on"),''
                @ ''HN.once=HN.factory("once"),HN.off=HN.factory("off"),''
                @ ''HN.emit=HN.factory("emit"),HN.load=function(){var e="hn-button.js";''
                @ ''if(document.getElementById(e))return;var t=document.createElement("scrip''
                @ ''t");t.id=e,t.src="https://hn-button.herokuapp.com/hn-button.js";var ''
                @ ''n=document.getElementsByTagName("script")[0];''
                @ ''n.parentNode.insertBefore(t,n)},HN.load();</script>''))\<close>

definition facebooklike :: "env \<Rightarrow> opts \<Rightarrow> error + string" where
  \<open>facebooklike env opts =
     (if \<not> truthy (homepage opts) then Inl (Error ''homepage is missing'')
      else
        let facebookApplicationID' =
              or_else (facebookApplicationID opts) (FACEBOOK_APPLICATION_ID env)
        in
          if \<not> truthy facebookApplicationID'
          then Inl (Error ''facebookApplicationID is missing'')
          else Inr (''<iframe src="https://www.facebook.com/plugins/like.php?href=''
                    @ escape (str (homepage opts))
                    @ ''&amp;send=false&amp;layout=button_count&amp;width=450&amp;''
                    @ ''show_faces=false&amp;font&amp;colorscheme=light&amp;action=like&amp;''
                    @ ''height=21&amp;appId='' @ escape (str facebookApplicationID')
                    @ ''" scrolling="no" frameborder="0" style="border:none; overflow:hidden; ''
                    @ ''width:450px; height:21px;" allowTransparency="true"></iframe>''))\<close>

definition facebookfollow :: "env \<Rightarrow> opts \<Rightarrow> error + string" where
  \<open>facebookfollow env opts =
     (if \<not> truthy (facebookUsername opts) then Inl (Error ''facebookUsername is missing'')
      else
        let facebookApplicationID' =
              or_else (facebookApplicationID opts) (FACEBOOK_APPLICATION_ID env)
        in
          if \<not> truthy facebookApplicationID'
          then Inl (Error ''facebookApplicationID is missing'')
          else Inr (''<iframe src="https://www.facebook.com/plugins/follow.php?href=https%3A%2''
                    @ ''F%2Fwww.facebook.com%2F'' @ escape (str (facebookUsername opts))
                    @ ''&amp;layout=button_count&amp;show_faces=false&amp;colorscheme=light&amp;''
                    @ ''font&amp;width=450&amp;appId=''
                    @ escape (str facebookApplicationID')
                    @ ''" scrolling="no" frameborder="0" style="border:none; overflow:hidden; ''
                    @ ''width:450px; height: 20px;" allowTransparency="true"></iframe>''))\<close>

definition twittertweet :: "opts \<Rightarrow> error + string" where
  \<open>twittertweet opts =
     (if \<not> truthy (twitterUsername opts) then Inl (Error ''twitterUsername is missing'')
      else Inr (''<a href="https://twitter.com/share" class="twitter-share-button" ''
                @ ''data-via="'' @ str (twitterUsername opts) @ ''" data-related="''
                @ str (twitterUsername opts)
                @ ''">Tweet</a><script>!function(d,s,id){var js,''
                @ ''fjs=d.getElementsByTagName(s)[0];if(!d.getElementById(id)){js=d.createEl''
                @ ''ement(s);js.id=id;js.src="https://platform.twitter.com/widgets.js";''
                @ ''fjs.parentNode.insertBefore(js,fjs);}}(document,"script","twitter-wjs");''
                @ ''</script>''))\<close>

definition twitterfollow :: "opts \<Rightarrow> error + string" where
  \<open>twitterfollow opts =
     (if \<not> truthy (twitterUsername opts) then Inl (Error ''twitterUsername is missing'')
      else Inr (''<a href="https://twitter.com/'' @ escape (str (twitterUsername opts))
                @ ''" class="twitter-follow-button" data-show-count="false">Follow @''
                @ str (twitterUsername opts)
                @ ''</a><script>!function(d,s,id){var js,fjs=d.getElementsByTagName(s)[0];''
                @ ''if(!d.getElementById(id)){js=d.createElement(s);js.id=id;''
                @ ''js.src="https://platform.twitter.com/widgets.js";''
                @ ''fjs.parentNode.insertBefore(js,fjs);}}(document,"script","twitter-wjs");''
                @ ''</script>''))\<close>

definition githubfollow :: "opts \<Rightarrow> error + string" where
  \<open>githubfollow opts =
     (if \<not> truthy (githubUsername opts) then Inl (Error ''githubUsername is missing'')
      else Inr (''<iframe src="https://ghbtns.com/github-btn.html?user=''
                @ escape (str (githubUsername opts))
                @ ''&amp;type=follow&amp;count=true" allowtransparency="true" ''
                @ ''frameborder="0" scrolling="0" width="165" height="20"></iframe>''))\<close>

definition githubstar :: "opts \<Rightarrow> error + string" where
  \<open>githubstar opts =
     (if \<not> truthy (githubSlug opts) then Inl (Error ''githubSlug is missing'')
      else
        let split = split_on CHR ''/'' (str (githubSlug opts));
            githubUsername' = index split 0;
            githubRepository' = index split 1
        in
          if \<not> truthy githubUsername' \<or> \<not> truthy githubRepository'
          then Inl (Error ''githubSlug is invalid'')
          else Inr (''<iframe src="https://ghbtns.com/github-btn.html?user=''
                    @ escape (str githubUsername') @ ''&amp;repo=''
                    @ escape (str githubRepository')
                    @ ''&amp;type=watch&amp;count=true" allowtransparency="true" ''
                    @ ''frameborder="0" scrolling="0" width="110" height="20"></iframe>''))\<close>

definition quorafollow :: "opts \<Rightarrow> error + string" where
  \<open>quorafollow opts =
     (if \<not> truthy (quoraUsername opts) then Inl (Error ''quoraUsername is missing'')
      else
        let quoraRealname' =
              or_else (quoraRealname opts) (Some (replace_dashes (str (quoraUsername opts))));
            quoraCode' = or_else (quoraCode opts) (Some ''7N31XJs'')
        in Inr (remove_breaks False
                 ([CHR 0x0A, CHR 0x09, CHR 0x09] @ ''<span data-name="''
                  @ str (quoraUsername opts) @ ''">''
                  @ [CHR 0x0A, CHR 0x09, CHR 0x09, CHR 0x09]
                  @ ''Follow <a href="http://www.quora.com/'' @ str (quoraUsername opts)
                  @ ''">'' @ str quoraRealname'
                  @ ''</a> on <a href="http://www.quora.com">Quora</a>''
                  @ [CHR 0x0A, CHR 0x09, CHR 0x09, CHR 0x09]
                  @ ''<script src="https://www.quora.com/widgets/follow?embed_code=''
                  @ escape (str quoraCode') @ ''"></script>''
                  @ [CHR 0x0A, CHR 0x09, CHR 0x09] @ ''</span>'')))\<close>

section \<open>The exported table\<close>

text \<open>
  \<^verbatim>\<open>module.exports\<close> maps each name to its function; \<open>run\<close> is the call
  \<^verbatim>\<open>badges[name](opts)\<close> in a process whose environment is \<open>env\<close>.
\<close>

datatype generator =
    Badge | Shields | Npmversion | Npmdownloads | Daviddm | Daviddmdev | Saucelabsbm
  | Saucelabs | Travisci | Codeship | Coveralls | Codeclimate | Bithound | Waffle
  | Sixtydevstips | Patreon | Opencollective | Gratipay | Flattr | Paypal | Crypto
  | Bitcoin | Wishlist | Buymeacoffee | Liberapay | Thanksapp | Boostlab
  | Slackinscript | Slackin | Gabeacon | Googleplusone | Redditsubmit
  | Hackernewssubmit | Facebooklike | Facebookfollow | Twittertweet | Twitterfollow
  | Githubfollow | Githubstar | Quorafollow | Nodeico

fun run :: "env \<Rightarrow> generator \<Rightarrow> opts \<Rightarrow> error + string" where
  "run env Badge opts = badge opts"
| "run env Shields opts = shields opts"
| "run env Npmversion opts = npmversion opts"
| "run env Npmdownloads opts = npmdownloads opts"
| "run env Daviddm opts = daviddm opts"
| "run env Daviddmdev opts = daviddmdev opts"
| "run env Saucelabsbm opts = saucelabsbm env opts"
| "run env Saucelabs opts = saucelabs env opts"
| "run env Travisci opts = travisci opts"
| "run env Codeship opts = codeship opts"
| "run env Coveralls opts = coveralls opts"
| "run env Codeclimate opts = codeclimate opts"
| "run env Bithound opts = bithound opts"
| "run env Waffle opts = waffle opts"
| "run env Sixtydevstips opts = sixtydevstips opts"
| "run env Patreon opts = patreon opts"
| "run env Opencollective opts = opencollective opts"
| "run env Gratipay opts = gratipay opts"
| "run env Flattr opts = flattr opts"
| "run env Paypal opts = paypal opts"
| "run env Crypto opts = crypto opts"
| "run env Bitcoin opts = bitcoin opts"
| "run env Wishlist opts = wishlist opts"
| "run env Buymeacoffee opts = buymeacoffee opts"
| "run env Liberapay opts = liberapay opts"
| "run env Thanksapp opts = thanksapp opts"
| "run env Boostlab opts = boostlab opts"
| "run env Slackinscript opts = slackinscript opts"
| "run env Slackin opts = slackin opts"
| "run env Gabeacon opts = gabeacon opts"
| "run env Googleplusone opts = googleplusone opts"
| "run env Redditsubmit opts = redditsubmit opts"
| "run env Hackernewssubmit opts = hackernewssubmit opts"
| "run env Facebooklike opts = facebooklike env opts"
| "run env Facebookfollow opts = facebookfollow env opts"
| "run env Twittertweet opts = twittertweet opts"
| "run env Twitterfollow opts = twitterfollow opts"
| "run env Githubfollow opts = githubfollow opts"
| "run env Githubstar opts = githubstar opts"
| "run env Quorafollow opts = quorafollow opts"
| "run env Nodeico opts = nodeico opts"

text \<open>
  The properties assigned to the function objects: \<^verbatim>\<open>badgeCategory\<close> on every
  generator, \<^verbatim>\<open>badgeInline\<close> and \<^verbatim>\<open>badgeScript\<close> on some (\<^term>\<open>None\<close> where the property
  is never assigned).
\<close>

record metadata =
  badgeCategory :: string
  badgeInline :: "bool option"
  badgeScript :: "bool option"

fun meta :: "generator \<Rightarrow> metadata" where
  "meta Badge =
     \<lparr>badgeCategory = ''custom'', badgeInline = None, badgeScript = None\<rparr>"
| "meta Shields =
     \<lparr>badgeCategory = ''custom'', badgeInline = None, badgeScript = None\<rparr>"
| "meta Npmversion =
     \<lparr>badgeCategory = ''development'', badgeInline = None, badgeScript = None\<rparr>"
| "meta Npmdownloads =
     \<lparr>badgeCategory = ''development'', badgeInline = None, badgeScript = None\<rparr>"
| "meta Daviddm =
     \<lparr>badgeCategory = ''development'', badgeInline = None, badgeScript = None\<rparr>"
| "meta Daviddmdev =
     \<lparr>badgeCategory = ''development'', badgeInline = None, badgeScript = None\<rparr>"
| "meta Saucelabsbm =
     \<lparr>badgeCategory = ''testing'', badgeInline = Some False, badgeScript = None\<rparr>"
| "meta Saucelabs =
     \<lparr>badgeCategory = ''testing'', badgeInline = None, badgeScript = None\<rparr>"
| "meta Travisci =
     \<lparr>badgeCategory = ''testing'', badgeInline = None, badgeScript = None\<rparr>"
| "meta Codeship =
     \<lparr>badgeCategory = ''testing'', badgeInline = None, badgeScript = None\<rparr>"
| "meta Coveralls =
     \<lparr>badgeCategory = ''testing'', badgeInline = None, badgeScript = None\<rparr>"
| "meta Codeclimate =
     \<lparr>badgeCategory = ''testing'', badgeInline = None, badgeScript = None\<rparr>"
| "meta Bithound =
     \<lparr>badgeCategory = ''testing'', badgeInline = None, badgeScript = None\<rparr>"
| "meta Waffle =
     \<lparr>badgeCategory = ''testing'', badgeInline = None, badgeScript = None\<rparr>"
| "meta Sixtydevstips =
     \<lparr>badgeCategory = ''funding'', badgeInline = None, badgeScript = None\<rparr>"
| "meta Patreon =
     \<lparr>badgeCategory = ''funding'', badgeInline = None, badgeScript = None\<rparr>"
| "meta Opencollective =
     \<lparr>badgeCategory = ''funding'', badgeInline = None, badgeScript = None\<rparr>"
| "meta Gratipay =
     \<lparr>badgeCategory = ''funding'', badgeInline = None, badgeScript = None\<rparr>"
| "meta Flattr =
     \<lparr>badgeCategory = ''funding'', badgeInline = None, badgeScript = None\<rparr>"
| "meta Paypal =
     \<lparr>badgeCategory = ''funding'', badgeInline = None, badgeScript = None\<rparr>"
| "meta Crypto =
     \<lparr>badgeCategory = ''funding'', badgeInline = None, badgeScript = None\<rparr>"
| "meta Bitcoin =
     \<lparr>badgeCategory = ''funding'', badgeInline = None, badgeScript = None\<rparr>"
| "meta Wishlist =
     \<lparr>badgeCategory = ''funding'', badgeInline = None, badgeScript = None\<rparr>"
| "meta Buymeacoffee =
     \<lparr>badgeCategory = ''funding'', badgeInline = None, badgeScript = None\<rparr>"
| "meta Liberapay =
     \<lparr>badgeCategory = ''funding'', badgeInline = None, badgeScript = None\<rparr>"
| "meta Thanksapp =
     \<lparr>badgeCategory = ''funding'', badgeInline = None, badgeScript = None\<rparr>"
| "meta Boostlab =
     \<lparr>badgeCategory = ''funding'', badgeInline = None, badgeScript = None\<rparr>"
| "meta Slackinscript =
     \<lparr>badgeCategory = ''social'', badgeInline = None, badgeScript = Some True\<rparr>"
| "meta Slackin =
     \<lparr>badgeCategory = ''social'', badgeInline = None, badgeScript = None\<rparr>"
| "meta Gabeacon =
     \<lparr>badgeCategory = ''social'', badgeInline = None, badgeScript = None\<rparr>"
| "meta Googleplusone =
     \<lparr>badgeCategory = ''social'', badgeInline = None, badgeScript = Some True\<rparr>"
| "meta Redditsubmit =
     \<lparr>badgeCategory = ''social'', badgeInline = None, badgeScript = Some True\<rparr>"
| "meta Hackernewssubmit =
     \<lparr>badgeCategory = ''social'', badgeInline = None, badgeScript = Some True\<rparr>"
| "meta Facebooklike =
     \<lparr>badgeCategory = ''social'', badgeInline = None, badgeScript = Some True\<rparr>"
| "meta Facebookfollow =
     \<lparr>badgeCategory = ''social'', badgeInline = None, badgeScript = Some True\<rparr>"
| "meta Twittertweet =
     \<lparr>badgeCategory = ''social'', badgeInline = None, badgeScript = Some True\<rparr>"
| "meta Twitterfollow =
     \<lparr>badgeCategory = ''social'', badgeInline = None, badgeScript = Some True\<rparr>"
| "meta Githubfollow =
     \<lparr>badgeCategory = ''social'', badgeInline = None, badgeScript = Some True\<rparr>"
| "meta Githubstar =
     \<lparr>badgeCategory = ''social'', badgeInline = None, badgeScript = Some True\<rparr>"
| "meta Quorafollow =
     \<lparr>badgeCategory = ''social'', badgeInline = None, badgeScript = Some True\<rparr>"
| "meta Nodeico =
     \<lparr>badgeCategory = ''development'', badgeInline = None, badgeScript = None\<rparr>"

section \<open>Vocabulary of the properties\<close>

text \<open>
  A field is \<^emph>\<open>required\<close> by a generator when the generator tests it with
  \<^verbatim>\<open>if (!F) throw new Error('F is missing')\<close> on every call that gets that far. The table
  lists, for each generator, these fields in the order of its parameter list, each with
  the value that the test reads. For \<^verbatim>\<open>saucelabsAuthToken\<close> and \<^verbatim>\<open>facebookApplicationID\<close>
  that value is the parameter after \<^verbatim>\<open>F = F || process.env.X\<close>. The generators that
  demand a field only when an alternative is missing have no required field.
\<close>

definition secret :: "(opts \<Rightarrow> string option) \<Rightarrow> (env \<Rightarrow> string option)
    \<Rightarrow> env \<Rightarrow> opts \<Rightarrow> string option" where
  "secret field variable env opts = or_else (field opts) (variable env)"

fun required_fields :: "generator \<Rightarrow> (string \<times> (env \<Rightarrow> opts \<Rightarrow> string option)) list" where
  "required_fields Badge = [(''image'', \<lambda>env. image')]"
| "required_fields Shields =
     [(''left'', \<lambda>env. left),
      (''right'', \<lambda>env. right)]"
| "required_fields Npmversion = [(''npmPackageName'', \<lambda>env. npmPackageName)]"
| "required_fields Npmdownloads = [(''npmPackageName'', \<lambda>env. npmPackageName)]"
| "required_fields Daviddm = [(''githubSlug'', \<lambda>env. githubSlug)]"
| "required_fields Daviddmdev = [(''githubSlug'', \<lambda>env. githubSlug)]"
| "required_fields Saucelabsbm =
     [(''saucelabsUsername'', \<lambda>env. saucelabsUsername),
      (''saucelabsAuthToken'', secret saucelabsAuthToken SAUCELABS_AUTH_TOKEN)]"
| "required_fields Saucelabs =
     [(''saucelabsUsername'', \<lambda>env. saucelabsUsername),
      (''saucelabsAuthToken'', secret saucelabsAuthToken SAUCELABS_AUTH_TOKEN)]"
| "required_fields Travisci = [(''githubSlug'', \<lambda>env. githubSlug)]"
| "required_fields Codeship =
     [(''codeshipProjectUUID'', \<lambda>env. codeshipProjectUUID),
      (''codeshipProjectID'', \<lambda>env. codeshipProjectID)]"
| "required_fields Coveralls = [(''githubSlug'', \<lambda>env. githubSlug)]"
| "required_fields Codeclimate = [(''githubSlug'', \<lambda>env. githubSlug)]"
| "required_fields Bithound = [(''githubSlug'', \<lambda>env. githubSlug)]"
| "required_fields Waffle = [(''githubSlug'', \<lambda>env. githubSlug)]"
| "required_fields Sixtydevstips = []"
| "required_fields Patreon = []"
| "required_fields Opencollective = []"
| "required_fields Gratipay = []"
| "required_fields Flattr = []"
| "required_fields Paypal = []"
| "required_fields Crypto = []"
| "required_fields Bitcoin = []"
| "required_fields Wishlist = [(''wishlistURL'', \<lambda>env. wishlistURL)]"
| "required_fields Buymeacoffee = []"
| "required_fields Liberapay = []"
| "required_fields Thanksapp = []"
| "required_fields Boostlab = [(''githubSlug'', \<lambda>env. githubSlug)]"
| "required_fields Slackinscript = [(''slackinURL'', \<lambda>env. slackinURL)]"
| "required_fields Slackin = [(''slackinURL'', \<lambda>env. slackinURL)]"
| "required_fields Gabeacon =
     [(''gaTrackingID'', \<lambda>env. gaTrackingID),
      (''githubSlug'', \<lambda>env. githubSlug)]"
| "required_fields Googleplusone = [(''homepage'', \<lambda>env. homepage)]"
| "required_fields Redditsubmit = [(''homepage'', \<lambda>env. homepage)]"
| "required_fields Hackernewssubmit = [(''homepage'', \<lambda>env. homepage)]"
| "required_fields Facebooklike =
     [(''homepage'', \<lambda>env. homepage),
      (''facebookApplicationID'', secret facebookApplicationID FACEBOOK_APPLICATION_ID)]"
| "required_fields Facebookfollow =
     [(''facebookUsername'', \<lambda>env. facebookUsername),
      (''facebookApplicationID'', secret facebookApplicationID FACEBOOK_APPLICATION_ID)]"
| "required_fields Twittertweet = [(''twitterUsername'', \<lambda>env. twitterUsername)]"
| "required_fields Twitterfollow = [(''twitterUsername'', \<lambda>env. twitterUsername)]"
| "required_fields Githubfollow = [(''githubUsername'', \<lambda>env. githubUsername)]"
| "required_fields Githubstar = [(''githubSlug'', \<lambda>env. githubSlug)]"
| "required_fields Quorafollow = [(''quoraUsername'', \<lambda>env. quoraUsername)]"
| "required_fields Nodeico = [(''npmPackageName'', \<lambda>env. npmPackageName)]"

text \<open>
  The parameter list of each generator, as its signature destructures it
  (\<^verbatim>\<open>bitcoin\<close> takes the object whole).
\<close>

fun parameters :: "generator \<Rightarrow> string list" where
  "parameters Badge = [''image'', ''alt'', ''url'', ''title'']"
| "parameters Shields = [''left'', ''right'', ''color'', ''alt'', ''url'', ''title'']"
| "parameters Npmversion = [''npmPackageName'']"
| "parameters Npmdownloads = [''npmPackageName'']"
| "parameters Daviddm = [''githubSlug'']"
| "parameters Daviddmdev = [''githubSlug'']"
| "parameters Saucelabsbm = [''saucelabsUsername'', ''saucelabsAuthToken'']"
| "parameters Saucelabs = [''saucelabsUsername'', ''saucelabsAuthToken'']"
| "parameters Travisci = [''githubSlug'']"
| "parameters Codeship = [''codeshipProjectUUID'', ''codeshipProjectID'']"
| "parameters Coveralls = [''githubSlug'']"
| "parameters Codeclimate = [''githubSlug'']"
| "parameters Bithound = [''githubSlug'']"
| "parameters Waffle = [''githubSlug'']"
| "parameters Sixtydevstips = [''sixtydevstipsID'', ''sixtydevstipsURL'']"
| "parameters Patreon = [''patreonUsername'', ''patreonURL'']"
| "parameters Opencollective = [''opencollectiveUsername'', ''opencollectiveURL'']"
| "parameters Gratipay = [''gratipayUsername'', ''gratipayURL'']"
| "parameters Flattr = [''flattrCode'', ''flattrUsername'', ''flattrURL'']"
| "parameters Paypal = [''paypalURL'', ''paypalButtonID'', ''paypalUsername'']"
| "parameters Crypto = [''cryptoURL'', ''bitcoinURL'']"
| "parameters Bitcoin = []"
| "parameters Wishlist = [''wishlistURL'']"
| "parameters Buymeacoffee = [''buymeacoffeeUsername'', ''buymeacoffeeURL'']"
| "parameters Liberapay = [''liberapayUsername'', ''liberapayURL'']"
| "parameters Thanksapp = [''githubSlug'', ''npmPackageName'']"
| "parameters Boostlab = [''githubSlug'']"
| "parameters Slackinscript = [''slackinURL'']"
| "parameters Slackin = [''slackinURL'']"
| "parameters Gabeacon = [''gaTrackingID'', ''githubSlug'']"
| "parameters Googleplusone = [''homepage'']"
| "parameters Redditsubmit = [''homepage'']"
| "parameters Hackernewssubmit = [''homepage'']"
| "parameters Facebooklike = [''homepage'', ''facebookApplicationID'']"
| "parameters Facebookfollow = [''facebookUsername'', ''facebookApplicationID'']"
| "parameters Twittertweet = [''twitterUsername'']"
| "parameters Twitterfollow = [''twitterUsername'']"
| "parameters Githubfollow = [''githubUsername'']"
| "parameters Githubstar = [''githubSlug'']"
| "parameters Quorafollow = [''quoraUsername'', ''quoraRealname'', ''quoraCode'']"
| "parameters Nodeico = [''npmPackageName'', ''nodeicoQueryString'']"

text \<open>The name of the first required field whose value is falsy, if there is one.\<close>

definition first_missing :: "env \<Rightarrow> generator \<Rightarrow> opts \<Rightarrow> string option" where
  "first_missing env g opts =
     map_option fst (find (\<lambda>(F, v). \<not> truthy (v env opts)) (required_fields g))"

text \<open>
  The \<^verbatim>\<open>key=value&...\<close> form of a list of properties: a property is written as the
  escaped key, \<^verbatim>\<open>=\<close> and the value, once for each element when the value is an array;
  the fields so written are joined with \<^verbatim>\<open>&\<close> in the order of the list.
\<close>

fun join_amp :: "string list \<Rightarrow> string" where
  "join_amp [] = []"
| "join_amp [x] = x"
| "join_amp (x # y # ys) = x @ ''&'' @ join_amp (y # ys)"

definition written_values :: "jsval \<Rightarrow> jsval list" where
  "written_values v = (case v of JArray xs \<Rightarrow> xs | _ \<Rightarrow> [v])"

definition key_value_fields :: "(string \<times> jsval) list \<Rightarrow> string list" where
  "key_value_fields props =
     concat (map (\<lambda>(k, v). map (\<lambda>x. qs_escape k @ ''='' @ encode_stringified x)
                                 (written_values v)) props)"

definition key_value_form :: "(string \<times> jsval) list \<Rightarrow> string" where
  "key_value_form props = join_amp (key_value_fields props)"

section \<open>Auxiliary facts\<close>

lemma truthy_simps: "truthy None = False" "truthy (Some s) = (s \<noteq> [])"
  by (simp_all add: truthy_def)

lemma str_Some: "str (Some s) = s"
  by (simp add: str_def)

lemma truthy_the: "truthy v \<Longrightarrow> str v = the v"
  by (cases v) (simp_all add: truthy_def str_def)

lemma descriptor_sel:
  "image' (descriptor i a u t) = Some i" "alt (descriptor i a u t) = a"
  "url (descriptor i a u t) = u" "title (descriptor i a u t) = t"
  by (simp_all add: descriptor_def)

text \<open>
  What the renderer returns for the descriptors that the image generators build: an
  image, an alternative text and a title that are not empty, and a truthy link URL.
\<close>

lemma badge_descriptor_linked:
  assumes "i \<noteq> []" and "a \<noteq> []" and "truthy u" and "t \<noteq> []"
  shows \<open>badge (descriptor i (Some a) u (Some t)) =
           Inr (''<a href="'' @ the u @ ''" title="'' @ t @ ''"><img src="'' @ i
                @ ''" alt="'' @ a @ ''" /></a>'')\<close>
  using assms by (simp add: badge_def descriptor_sel truthy_simps str_Some truthy_the Let_def)

text \<open>A message that does not end in \<open>g\<close> is not of the form \<^verbatim>\<open>F is missing\<close>.\<close>

lemma not_missing_message:
  "m \<noteq> [] \<Longrightarrow> last m \<noteq> CHR ''g'' \<Longrightarrow> m \<noteq> F @ '' is missing''"
  by auto

lemmas generator_defs =
  badge_def shields_def npmversion_def npmdownloads_def daviddm_def daviddmdev_def
  saucelabsbm_def saucelabs_def travisci_def codeship_def coveralls_def
  codeclimate_def bithound_def waffle_def wishlist_def boostlab_def slackinscript_def
  slackin_def gabeacon_def googleplusone_def redditsubmit_def hackernewssubmit_def
  facebooklike_def facebookfollow_def twittertweet_def twitterfollow_def githubfollow_def
  githubstar_def quorafollow_def

text \<open>
  The errors of \<open>nodeico\<close>: a missing package name, or else the error of its type check;
  no conversion of the query to a string ever throws, since a truthy query that has
  passed the type check is a string.
\<close>

lemma nodeico_errors:
  "nodeico opts = Inl e \<Longrightarrow>
     (\<not> truthy (npmPackageName opts) \<and> e = Error ''npmPackageName is missing'')
     \<or> (truthy (npmPackageName opts)
         \<and> e = Error ''nodeicoQueryString must be a string or an object'')"
  by (cases "nodeicoQueryString opts")
     (auto simp: nodeico_def Let_def js_truthy_def typeof_def badge_def descriptor_sel
        truthy_simps split: if_splits)

subsection \<open>Splitting a slug\<close>

lemma split_on_unfold:
  "split_on sep s = takeWhile (\<lambda>c. c \<noteq> sep) s
      # (if sep \<in> set s then split_on sep (tl (dropWhile (\<lambda>c. c \<noteq> sep) s)) else [])"
  by (induction s) (auto split: list.splits)

lemma tl_dropWhile_drop: "tl (dropWhile P s) = drop (Suc (length (takeWhile P s))) s"
  by (simp add: dropWhile_eq_drop drop_Suc tl_drop)

lemma takeWhile_all: "sep \<notin> set s \<Longrightarrow> takeWhile (\<lambda>c. c \<noteq> sep) s = s"
  by (induction s) auto

lemma index_split_on_0: "index (split_on sep s) 0 = Some (takeWhile (\<lambda>c. c \<noteq> sep) s)"
  by (subst split_on_unfold) (simp add: index_def)

lemma index_split_on_1:
  "index (split_on sep s) (Suc 0) =
     (if sep \<in> set s
      then Some (takeWhile (\<lambda>c. c \<noteq> sep)
                  (drop (Suc (length (takeWhile (\<lambda>c. c \<noteq> sep) s))) s))
      else None)"
proof (cases "sep \<in> set s")
  case True
  let ?r = "tl (dropWhile (\<lambda>c. c \<noteq> sep) s)"
  have "split_on sep s = takeWhile (\<lambda>c. c \<noteq> sep) s # split_on sep ?r"
    using True by (subst split_on_unfold) simp
  moreover have "index (x # split_on sep ?r) (Suc 0) = Some (takeWhile (\<lambda>c. c \<noteq> sep) ?r)"
    for x
    by (subst split_on_unfold) (simp add: index_def)
  ultimately show ?thesis
    using True by (simp add: tl_dropWhile_drop)
next
  case False
  then show ?thesis
    by (subst split_on_unfold) (simp add: index_def)
qed

subsection \<open>Serialising a query object\<close>

lemma join_amp_Cons: "join_amp (x # xs) = (if xs = [] then x else x @ ''&'' @ join_amp xs)"
  by (cases xs) simp_all

lemma join_amp_append:
  "xs \<noteq> [] \<Longrightarrow> ys \<noteq> [] \<Longrightarrow> join_amp (xs @ ys) = join_amp xs @ ''&'' @ join_amp ys"
  by (induction xs) (simp_all add: join_amp_Cons)

lemma join_amp_not_empty: "xs \<noteq> [] \<Longrightarrow> [] \<notin> set xs \<Longrightarrow> join_amp xs \<noteq> []"
  by (cases xs) (auto simp: join_amp_Cons)

text \<open>The inner loop writes the fields of one array, joined with \<^verbatim>\<open>&\<close>.\<close>

lemma array_loop_form:
  "array_loop out ks j xs =
     (if xs = [] then out
      else out @ (if j \<noteq> 0 then ''&'' else [])
             @ join_amp (map (\<lambda>x. ks @ encode_stringified x) xs))"
  by (induction xs arbitrary: out j) (simp_all add: join_amp_Cons)

text \<open>
  The loop of \<^verbatim>\<open>querystring.stringify\<close> writes the \<^verbatim>\<open>key=value&...\<close> form: every field
  holds at least \<^verbatim>\<open>=\<close>, so the output is not empty once a field is written and the next
  field gets its separator.
\<close>

lemma key_value_fields_Cons:
  "key_value_fields ((k, v) # props) =
     map (\<lambda>x. qs_escape k @ ''='' @ encode_stringified x) (written_values v)
     @ key_value_fields props"
  by (simp add: key_value_fields_def)

lemma key_value_fields_not_empty: "[] \<notin> set (key_value_fields props)"
  by (auto simp: key_value_fields_def)

lemma stringify_loop_form:
  "stringify_loop out props =
     (if key_value_fields props = [] then out
      else if out = [] then key_value_form props
      else out @ ''&'' @ key_value_form props)"
proof (induction props arbitrary: out)
  case Nil
  show ?case by (simp add: key_value_fields_def)
next
  case (Cons kv props)
  obtain k v where kv: "kv = (k, v)"
    by (cases kv)
  let ?here = "map (\<lambda>x. qs_escape k @ ''='' @ encode_stringified x) (written_values v)"
  let ?rest = "key_value_fields props"
  let ?out = "if out \<noteq> [] then out @ ''&'' else out"
  have step: "stringify_loop out ((k, v) # props) =
      (if ?here = [] then stringify_loop out props
       else stringify_loop (?out @ join_amp ?here) props)"
  proof (cases "\<exists>xs. v = JArray xs")
    case True
    then obtain xs where "v = JArray xs" ..
    then show ?thesis
      by (simp add: array_loop_form written_values_def)
  next
    case False
    then show ?thesis
      by (cases v) (simp_all add: written_values_def)
  qed
  have fields: "key_value_fields ((k, v) # props) = ?here @ ?rest"
    by (simp add: key_value_fields_Cons)
  show ?case
  proof (cases "?here = []")
    case True
    then show ?thesis
      unfolding kv by (simp only: step fields Cons.IH key_value_form_def) simp
  next
    case here: False
    have written: "join_amp ?here \<noteq> []"
      using here by (intro join_amp_not_empty) auto
    show ?thesis
    proof (cases "?rest = []")
      case True
      with here written show ?thesis
        unfolding kv by (simp only: step fields Cons.IH key_value_form_def) simp
    next
      case False
      with here have "join_amp (?here @ ?rest) = join_amp ?here @ ''&'' @ join_amp ?rest"
        by (intro join_amp_append)
      with here written False show ?thesis
        unfolding kv by (simp only: step fields Cons.IH key_value_form_def) simp
    qed
  qed
qed

lemma stringify_object: "stringify (JObject props) = key_value_form (own_property_order props)"
  by (simp add: stringify_def typeof_def properties_def stringify_loop_form key_value_form_def)

lemma stringify_array:
  "stringify (JArray xs) =
     key_value_form (own_property_order (zip (index_keys (length xs)) xs))"
  by (simp add: stringify_def typeof_def properties_def stringify_loop_form key_value_form_def)

lemma stringify_null: "stringify JNull = []"
  by (simp add: stringify_def)

section \<open>The shared renderer\<close>

text \<open>
  Claim C1, as amended. For every call to \<open>badge\<close> with a non-empty image: the image
  fragment is \<^verbatim>\<open><img src="{image}" alt="{alt}" />\<close> when \<open>alt\<close> is a non-empty string and
  \<^verbatim>\<open><img src="{image}" />\<close> when \<open>alt\<close> is absent or empty. The result is that fragment
  alone when \<open>url\<close> is absent or empty; otherwise it is the fragment wrapped as
  \<^verbatim>\<open><a href="{url}">...</a>\<close>, and the \<^verbatim>\<open><a>\<close> tag carries \<^verbatim>\<open>title="{title}"\<close> exactly when
  \<open>title\<close> is a non-empty string.
\<close>

theorem badge_markup:
  assumes "image' opts = Some i" and "i \<noteq> []"
  shows \<open>badge opts = Inr
    ((if truthy (url opts)
      then (if truthy (title opts)
            then ''<a href="'' @ the (url opts) @ ''" title="'' @ the (title opts) @ ''">''
            else ''<a href="'' @ the (url opts) @ ''">'')
      else [])
     @ (if truthy (alt opts)
        then ''<img src="'' @ i @ ''" alt="'' @ the (alt opts) @ ''" />''
        else ''<img src="'' @ i @ ''" />'')
     @ (if truthy (url opts) then ''</a>'' else []))\<close>
  using assms by (simp add: badge_def truthy_simps str_Some truthy_the Let_def)

text \<open>
  The theorem at \<^verbatim>\<open>badge({image: "x.png", url: "http://y"})\<close> and at
  \<^verbatim>\<open>badge({image: "x.png", alt: "A"})\<close>.
\<close>

theorem badge_markup_witness:
  \<open>badge (empty_opts\<lparr>image' := Some ''x.png'', url := Some ''http://y''\<rparr>)
     = Inr ''<a href="http://y"><img src="x.png" /></a>''
   \<and> badge (empty_opts\<lparr>image' := Some ''x.png'', alt := Some ''A''\<rparr>)
     = Inr ''<img src="x.png" alt="A" />''\<close>
  using
    badge_markup [of "empty_opts\<lparr>image' := Some ''x.png'', url := Some ''http://y''\<rparr>" "''x.png''"]
    badge_markup [of "empty_opts\<lparr>image' := Some ''x.png'', alt := Some ''A''\<rparr>" "''x.png''"]
  by (simp add: empty_opts_def truthy_simps)

text \<open>
  Claim C1 as first stated takes a field that is present for one that is used. A field
  that is present and empty is treated as absent: an empty \<open>alt\<close> gives no \<^verbatim>\<open>alt=""\<close>, an
  empty \<open>url\<close> gives no \<^verbatim>\<open><a href="">\<close> around the image, and an empty \<open>title\<close> gives no
  \<^verbatim>\<open>title=""\<close>.
\<close>

theorem badge_empty_field_counterexample:
  \<open>badge (empty_opts\<lparr>image' := Some ''x.png'', alt := Some ''''\<rparr>)
     = Inr ''<img src="x.png" />''
   \<and> badge (empty_opts\<lparr>image' := Some ''x.png'', alt := Some ''''\<rparr>)
     \<noteq> Inr ''<img src="x.png" alt="" />''
   \<and> badge (empty_opts\<lparr>image' := Some ''x.png'', url := Some ''''\<rparr>)
     = Inr ''<img src="x.png" />''
   \<and> badge (empty_opts\<lparr>image' := Some ''x.png'', url := Some ''''\<rparr>)
     \<noteq> Inr ''<a href=""><img src="x.png" /></a>''
   \<and> badge (empty_opts\<lparr>image' := Some ''x.png'', url := Some ''http://y'', title := Some ''''\<rparr>)
     = Inr ''<a href="http://y"><img src="x.png" /></a>''
   \<and> badge (empty_opts\<lparr>image' := Some ''x.png'', url := Some ''http://y'', title := Some ''''\<rparr>)
     \<noteq> Inr ''<a href="http://y" title=""><img src="x.png" /></a>''\<close>
  by (simp add: badge_def empty_opts_def truthy_simps str_Some)

section \<open>Required fields\<close>

text \<open>
  Claim C2, as amended. For every generator with required fields: its required fields
  stand in the order of its parameter list; a call in which some required field is absent
  or empty fails with the error \<^verbatim>\<open>F is missing\<close>, where \<open>F\<close> is the first such field in
  that order; and a call in which every required field has a non-empty value raises no
  error of the form \<^verbatim>\<open>F is missing\<close>. Here \<^verbatim>\<open>saucelabsAuthToken\<close> and
  \<^verbatim>\<open>facebookApplicationID\<close> are absent or empty when the field and its environment
  variable both are.
\<close>

theorem required_fields_checked:
  assumes "required_fields g \<noteq> []"
  shows "subseq (map fst (required_fields g)) (parameters g)
     \<and> (case first_missing env g opts of
           Some F \<Rightarrow> run env g opts = Inl (Error (F @ '' is missing''))
         | None \<Rightarrow> (\<forall>F. run env g opts \<noteq> Inl (Error (F @ '' is missing''))))"
proof
  show "subseq (map fst (required_fields g)) (parameters g)"
    by (cases g) simp_all
  show "case first_missing env g opts of
          Some F \<Rightarrow> run env g opts = Inl (Error (F @ '' is missing''))
        | None \<Rightarrow> (\<forall>F. run env g opts \<noteq> Inl (Error (F @ '' is missing'')))"
  proof (cases g)
    case Nodeico
    show ?thesis
    proof (cases "truthy (npmPackageName opts)")
      case True
      then show ?thesis
        using nodeico_errors [of opts]
        by (auto simp: Nodeico first_missing_def not_missing_message)
    next
      case False
      then show ?thesis
        by (simp add: Nodeico first_missing_def nodeico_def)
    qed
  qed (use assms in \<open>auto simp: first_missing_def generator_defs secret_def Let_def
        descriptor_sel truthy_simps not_missing_message\<close>)
qed

text \<open>
  The theorem at \<open>codeship\<close>: with both fields missing the error names
  \<^verbatim>\<open>codeshipProjectUUID\<close>, with only the second missing it names \<^verbatim>\<open>codeshipProjectID\<close>; and
  at \<open>badge\<close> with no image.
\<close>

theorem required_fields_checked_witness:
  "required_fields Codeship \<noteq> []
   \<and> run \<lparr>SAUCELABS_AUTH_TOKEN = None, FACEBOOK_APPLICATION_ID = None\<rparr> Codeship empty_opts
        = Inl (Error ''codeshipProjectUUID is missing'')
   \<and> run \<lparr>SAUCELABS_AUTH_TOKEN = None, FACEBOOK_APPLICATION_ID = None\<rparr> Codeship
          (empty_opts\<lparr>codeshipProjectUUID := Some ''u''\<rparr>)
        = Inl (Error ''codeshipProjectID is missing'')
   \<and> run \<lparr>SAUCELABS_AUTH_TOKEN = None, FACEBOOK_APPLICATION_ID = None\<rparr> Badge empty_opts
        = Inl (Error ''image is missing'')"
  using
    required_fields_checked
      [of Codeship "\<lparr>SAUCELABS_AUTH_TOKEN = None, FACEBOOK_APPLICATION_ID = None\<rparr>" empty_opts]
    required_fields_checked
      [of Codeship "\<lparr>SAUCELABS_AUTH_TOKEN = None, FACEBOOK_APPLICATION_ID = None\<rparr>"
        "empty_opts\<lparr>codeshipProjectUUID := Some ''u''\<rparr>"]
    required_fields_checked
      [of Badge "\<lparr>SAUCELABS_AUTH_TOKEN = None, FACEBOOK_APPLICATION_ID = None\<rparr>" empty_opts]
  by (simp add: first_missing_def empty_opts_def truthy_simps)

text \<open>
  Claim C2 as first stated speaks of the fields of the configuration object alone. With
  \<^verbatim>\<open>SAUCELABS_AUTH_TOKEN\<close> set, \<open>saucelabs\<close> succeeds although \<^verbatim>\<open>saucelabsAuthToken\<close> is
  absent from the object; with the variable unset, the same object fails with
  \<^verbatim>\<open>saucelabsAuthToken is missing\<close>. So the field cannot be left out of the required
  fields either.
\<close>

theorem required_fields_environment_counterexample:
  \<open>saucelabsAuthToken (empty_opts\<lparr>saucelabsUsername := Some ''bevry''\<rparr>) = None
   \<and> run \<lparr>SAUCELABS_AUTH_TOKEN = Some ''t'', FACEBOOK_APPLICATION_ID = None\<rparr> Saucelabs
         (empty_opts\<lparr>saucelabsUsername := Some ''bevry''\<rparr>) =
       Inr (''<a href="https://saucelabs.com/u/bevry" ''
            @ ''title="Check this project's browser tests on Sauce Labs">''
            @ ''<img src="https://saucelabs.com/browser-matrix/bevry.svg?auth=t" ''
            @ ''alt="Sauce Labs Browser Matrix" /></a>'')
   \<and> run \<lparr>SAUCELABS_AUTH_TOKEN = Some ''t'', FACEBOOK_APPLICATION_ID = None\<rparr> Saucelabs
         (empty_opts\<lparr>saucelabsUsername := Some ''bevry''\<rparr>) \<noteq>
       Inl (Error ''saucelabsAuthToken is missing'')
   \<and> run \<lparr>SAUCELABS_AUTH_TOKEN = None, FACEBOOK_APPLICATION_ID = None\<rparr> Saucelabs
         (empty_opts\<lparr>saucelabsUsername := Some ''bevry''\<rparr>) =
       Inl (Error ''saucelabsAuthToken is missing'')\<close>
  by (simp add: saucelabs_def empty_opts_def or_else_def truthy_simps str_Some
        badge_descriptor_linked escape_def escape_unit_def alphanumeric_def)

section \<open>Fallback chains\<close>

text \<open>
  Claim C3. \<open>paypal\<close> links to a non-empty \<^verbatim>\<open>paypalURL\<close> as given; otherwise, with a
  non-empty \<^verbatim>\<open>paypalButtonID\<close>, to the hosted-button URL that ends in the escaped ID;
  otherwise, with a non-empty \<^verbatim>\<open>paypalUsername\<close>, to \<^verbatim>\<open>https://paypal.me/{paypalUsername}\<close>;
  and with all three absent or empty it fails with the error that says that one of the
  three is missing.
\<close>

theorem paypal_chain:
  \<open>paypal opts =
     (let link = (\<lambda>u. Inr (''<a href="'' @ u
                    @ ''" title="Donate to this project using Paypal">''
                    @ ''<img src="https://img.shields.io/badge/paypal-donate-yellow.svg" ''
                    @ ''alt="PayPal donate button" /></a>'')) in
      if truthy (paypalURL opts) then link (the (paypalURL opts))
      else if truthy (paypalButtonID opts)
      then link (''https://www.paypal.com/cgi-bin/webscr?cmd=_s-xclick&amp;hosted_button_id=''
                 @ escape (the (paypalButtonID opts)))
      else if truthy (paypalUsername opts)
      then link (''https://paypal.me/'' @ the (paypalUsername opts))
      else Inl (Error (''paypalURL, paypalButtonID, or paypalUsername is missing, ''
                       @ ''at least one must exist'')))\<close>
  by (simp add: paypal_def badge_descriptor_linked truthy_simps truthy_the Let_def)

text \<open>The theorem at \<^verbatim>\<open>paypal({paypalUsername: "bob"})\<close> and at \<^verbatim>\<open>paypal({})\<close>.\<close>

theorem paypal_chain_witness:
  \<open>paypal (empty_opts\<lparr>paypalUsername := Some ''bob''\<rparr>) =
     Inr (''<a href="https://paypal.me/bob" title="Donate to this project using Paypal">''
          @ ''<img src="https://img.shields.io/badge/paypal-donate-yellow.svg" ''
          @ ''alt="PayPal donate button" /></a>'')
   \<and> paypal empty_opts =
     Inl (Error (''paypalURL, paypalButtonID, or paypalUsername is missing, ''
                 @ ''at least one must exist''))\<close>
  using paypal_chain [of "empty_opts\<lparr>paypalUsername := Some ''bob''\<rparr>"]
    paypal_chain [of empty_opts]
  by (simp add: empty_opts_def truthy_simps)

text \<open>
  Claim C4. For every configuration object, \<open>bitcoin\<close> returns what \<open>crypto\<close> returns:
  the same string when \<open>crypto\<close> succeeds, the same error when it fails.
\<close>

theorem bitcoin_is_crypto: "bitcoin opts = crypto opts"
  by (simp add: bitcoin_def)

text \<open>The theorem at \<^verbatim>\<open>{cryptoURL: "http://x"}\<close> and at \<^verbatim>\<open>{}\<close>.\<close>

theorem bitcoin_is_crypto_witness:
  "bitcoin (empty_opts\<lparr>cryptoURL := Some ''http://x''\<rparr>)
     = crypto (empty_opts\<lparr>cryptoURL := Some ''http://x''\<rparr>)
   \<and> bitcoin empty_opts = crypto empty_opts"
  using bitcoin_is_crypto [of "empty_opts\<lparr>cryptoURL := Some ''http://x''\<rparr>"]
    bitcoin_is_crypto [of empty_opts]
  by simp

text \<open>
  Claim C9. \<open>crypto\<close> also reads \<^verbatim>\<open>bitcoinURL\<close>: with \<^verbatim>\<open>cryptoURL\<close> absent or empty and a
  non-empty \<^verbatim>\<open>bitcoinURL\<close> it succeeds and links to \<^verbatim>\<open>bitcoinURL\<close>; with both non-empty it
  links to \<^verbatim>\<open>cryptoURL\<close>; with both absent or empty the error names \<^verbatim>\<open>cryptoURL\<close> alone.
\<close>

theorem crypto_chain:
  \<open>crypto opts =
     (let link = (\<lambda>u. Inr (''<a href="'' @ u
                    @ ''" title="Donate to this project using Cryptocurrency">''
                    @ ''<img src="https://img.shields.io/badge/crypto-donate-yellow.svg" ''
                    @ ''alt="crypto donate button" /></a>'')) in
      if truthy (cryptoURL opts) then link (the (cryptoURL opts))
      else if truthy (bitcoinURL opts) then link (the (bitcoinURL opts))
      else Inl (Error ''cryptoURL is missing''))\<close>
  by (simp add: crypto_def or_else_def badge_descriptor_linked Let_def)

text \<open>
  The theorem with only \<^verbatim>\<open>bitcoinURL\<close>, with both URLs, and with neither.
\<close>

theorem crypto_chain_witness:
  \<open>crypto (empty_opts\<lparr>bitcoinURL := Some ''http://b''\<rparr>) =
     Inr (''<a href="http://b" title="Donate to this project using Cryptocurrency">''
          @ ''<img src="https://img.shields.io/badge/crypto-donate-yellow.svg" ''
          @ ''alt="crypto donate button" /></a>'')
   \<and> crypto (empty_opts\<lparr>cryptoURL := Some ''http://c'', bitcoinURL := Some ''http://b''\<rparr>) =
     Inr (''<a href="http://c" title="Donate to this project using Cryptocurrency">''
          @ ''<img src="https://img.shields.io/badge/crypto-donate-yellow.svg" ''
          @ ''alt="crypto donate button" /></a>'')
   \<and> crypto empty_opts = Inl (Error ''cryptoURL is missing'')\<close>
  using crypto_chain [of "empty_opts\<lparr>bitcoinURL := Some ''http://b''\<rparr>"]
    crypto_chain
      [of "empty_opts\<lparr>cryptoURL := Some ''http://c'', bitcoinURL := Some ''http://b''\<rparr>"]
    crypto_chain [of empty_opts]
  by (simp add: empty_opts_def truthy_simps)

text \<open>
  Claim C10. \<open>thanksapp\<close> with a non-empty \<^verbatim>\<open>npmPackageName\<close> links to
  \<^verbatim>\<open>https://givethanks.app/donate/npm/{npmPackageName}\<close>, whatever \<^verbatim>\<open>githubSlug\<close> is; it
  links to \<^verbatim>\<open>https://givethanks.app/donate/github/{githubSlug}\<close> only when
  \<^verbatim>\<open>npmPackageName\<close> is absent or empty.
\<close>

theorem thanksapp_precedence:
  \<open>thanksapp opts =
     (let link = (\<lambda>u. Inr (''<a href="'' @ u
                    @ ''" title="Donate to this project using Thanks App">''
                    @ ''<img src="https://img.shields.io/badge/thanksapp-donate-yellow.svg" ''
                    @ ''alt="Thanks App donate button" /></a>'')) in
      if truthy (npmPackageName opts)
      then link (''https://givethanks.app/donate/npm/'' @ the (npmPackageName opts))
      else if truthy (githubSlug opts)
      then link (''https://givethanks.app/donate/github/'' @ the (githubSlug opts))
      else Inl (Error (''githubSlug and npmPackageName are missing, ''
                       @ ''at least one is required'')))\<close>
  by (simp add: thanksapp_def badge_descriptor_linked truthy_the truthy_simps Let_def)

text \<open>The theorem with both fields, and with \<^verbatim>\<open>githubSlug\<close> alone.\<close>

theorem thanksapp_precedence_witness:
  \<open>thanksapp (empty_opts\<lparr>githubSlug := Some ''bevry/badges'',
                npmPackageName := Some ''badges''\<rparr>) =
     Inr (''<a href="https://givethanks.app/donate/npm/badges" ''
          @ ''title="Donate to this project using Thanks App">''
          @ ''<img src="https://img.shields.io/badge/thanksapp-donate-yellow.svg" ''
          @ ''alt="Thanks App donate button" /></a>'')
   \<and> thanksapp (empty_opts\<lparr>githubSlug := Some ''bevry/badges''\<rparr>) =
     Inr (''<a href="https://givethanks.app/donate/github/bevry/badges" ''
          @ ''title="Donate to this project using Thanks App">''
          @ ''<img src="https://img.shields.io/badge/thanksapp-donate-yellow.svg" ''
          @ ''alt="Thanks App donate button" /></a>'')\<close>
  using
    thanksapp_precedence
      [of "empty_opts\<lparr>githubSlug := Some ''bevry/badges'', npmPackageName := Some ''badges''\<rparr>"]
    thanksapp_precedence [of "empty_opts\<lparr>githubSlug := Some ''bevry/badges''\<rparr>"]
  by (simp add: empty_opts_def truthy_simps)

section \<open>The slug of \<open>githubstar\<close>\<close>

text \<open>
  Claim C5, as amended. An absent or empty \<^verbatim>\<open>githubSlug\<close> fails with the error
  \<^verbatim>\<open>githubSlug is missing\<close>, before any split. A non-empty \<^verbatim>\<open>githubSlug\<close> is split on
  \<^verbatim>\<open>/\<close>: the owner is the piece before the first \<^verbatim>\<open>/\<close>, the repository the piece after it
  (up to a second \<^verbatim>\<open>/\<close>, if there is one). The call fails with the error
  \<^verbatim>\<open>githubSlug is invalid\<close> whenever either piece is empty, in particular when the slug has
  no \<^verbatim>\<open>/\<close>; otherwise it succeeds and puts the two escaped pieces into the URL of the
  iframe.
\<close>

theorem githubstar_slug:
  \<open>githubstar opts =
     (case githubSlug opts of
        None \<Rightarrow> Inl (Error ''githubSlug is missing'')
      | Some s \<Rightarrow>
          if s = [] then Inl (Error ''githubSlug is missing'')
          else
            let owner = takeWhile (\<lambda>c. c \<noteq> CHR ''/'') s;
                repository = takeWhile (\<lambda>c. c \<noteq> CHR ''/'') (drop (Suc (length owner)) s)
            in if owner = [] \<or> repository = [] \<or> CHR ''/'' \<notin> set s
               then Inl (Error ''githubSlug is invalid'')
               else Inr (''<iframe src="https://ghbtns.com/github-btn.html?user=''
                         @ escape owner @ ''&amp;repo='' @ escape repository
                         @ ''&amp;type=watch&amp;count=true" allowtransparency="true" ''
                         @ ''frameborder="0" scrolling="0" width="110" height="20"></iframe>''))\<close>
  by (simp add: githubstar_def index_split_on_0 index_split_on_1 truthy_simps str_Some
        takeWhile_all Let_def split: option.split)

text \<open>
  The theorem at \<^verbatim>\<open>{githubSlug: "a/b"}\<close>, at \<^verbatim>\<open>{githubSlug: "ab"}\<close>, at the slugs
  \<^verbatim>\<open>"/b"\<close> and \<^verbatim>\<open>"a/"\<close> with an empty half, and at \<^verbatim>\<open>{}\<close>.
\<close>

theorem githubstar_slug_witness:
  \<open>githubstar (empty_opts\<lparr>githubSlug := Some ''a/b''\<rparr>) =
     Inr (''<iframe src="https://ghbtns.com/github-btn.html?user=a&amp;repo=b''
          @ ''&amp;type=watch&amp;count=true" allowtransparency="true" ''
          @ ''frameborder="0" scrolling="0" width="110" height="20"></iframe>'')
   \<and> githubstar (empty_opts\<lparr>githubSlug := Some ''ab''\<rparr>) = Inl (Error ''githubSlug is invalid'')
   \<and> githubstar (empty_opts\<lparr>githubSlug := Some ''/b''\<rparr>) = Inl (Error ''githubSlug is invalid'')
   \<and> githubstar (empty_opts\<lparr>githubSlug := Some ''a/''\<rparr>) = Inl (Error ''githubSlug is invalid'')
   \<and> githubstar empty_opts = Inl (Error ''githubSlug is missing'')\<close>
  using githubstar_slug [of "empty_opts\<lparr>githubSlug := Some ''a/b''\<rparr>"]
    githubstar_slug [of "empty_opts\<lparr>githubSlug := Some ''ab''\<rparr>"]
    githubstar_slug [of "empty_opts\<lparr>githubSlug := Some ''/b''\<rparr>"]
    githubstar_slug [of "empty_opts\<lparr>githubSlug := Some ''a/''\<rparr>"]
    githubstar_slug [of empty_opts]
  by (simp add: empty_opts_def escape_def escape_unit_def alphanumeric_def)

text \<open>
  Claim C5 as first stated fails at the empty slug: it has no \<^verbatim>\<open>/\<close> and its owner half is
  empty, yet the error is the one for a missing field, not the one for an invalid slug.
\<close>

theorem githubstar_empty_slug_counterexample:
  "githubstar (empty_opts\<lparr>githubSlug := Some ''''\<rparr>) = Inl (Error ''githubSlug is missing'')
   \<and> githubstar (empty_opts\<lparr>githubSlug := Some ''''\<rparr>) \<noteq> Inl (Error ''githubSlug is invalid'')
   \<and> CHR ''/'' \<notin> set ''''"
  by (simp add: githubstar_def empty_opts_def truthy_simps)

section \<open>The query string of \<open>nodeico\<close>\<close>

text \<open>
  Claim C6, as amended. \<open>nodeico\<close>, given a non-empty \<^verbatim>\<open>npmPackageName\<close>: when
  \<^verbatim>\<open>nodeicoQueryString\<close> is a key-to-value mapping (or an array, whose keys are its
  indices), it is serialised to the \<^verbatim>\<open>key=value&...\<close> form, keys in the order in which
  \<^verbatim>\<open>Object.keys\<close> lists them (array-index keys ascending, then the other keys in
  insertion order), keys and values URL-escaped, and, unless the serialisation is empty,
  appended to the image URL after \<^verbatim>\<open>?\<close>; when it is a non-empty string it is appended as
  it is after \<^verbatim>\<open>?\<close>; when it is absent or any other falsy value (the empty string,
  \<^verbatim>\<open>null\<close>, \<^verbatim>\<open>false\<close>, a zero, \<^verbatim>\<open>NaN\<close>), nothing is appended; and when it is truthy and
  neither a string nor an object (\<^verbatim>\<open>true\<close>, any other number or bigint, a symbol, a
  function), the call fails with the error
  \<^verbatim>\<open>nodeicoQueryString must be a string or an object\<close>.
\<close>

theorem nodeico_query:
  assumes "npmPackageName opts = Some n" and "n \<noteq> []"
  shows \<open>nodeico opts =
     (let base = ''https://nodei.co/npm/'' @ n @ ''.png'';
          ok = (\<lambda>image. Inr (''<a href="https://www.npmjs.com/package/'' @ n
                   @ ''" title="Nodei.co badge"><img src="'' @ image
                   @ ''" alt="Nodei.co badge" /></a>''));
          fail = Inl (Error ''nodeicoQueryString must be a string or an object'');
          serialised = (\<lambda>props.
            let query = key_value_form (own_property_order props)
            in if query = [] then ok base else ok (base @ ''?'' @ query))
      in case nodeicoQueryString opts of
           JUndefined \<Rightarrow> ok base
         | JNull \<Rightarrow> ok base
         | JBoolean b \<Rightarrow> if b then fail else ok base
         | JNumber t \<Rightarrow> if t = ''0'' \<or> t = ''NaN'' then ok base else fail
         | JBigInt i \<Rightarrow> if i = 0 then ok base else fail
         | JString q \<Rightarrow> if q = [] then ok base else ok (base @ ''?'' @ q)
         | JSymbol \<Rightarrow> fail
         | JFunction src \<Rightarrow> fail
         | JArray xs \<Rightarrow> serialised (zip (index_keys (length xs)) xs)
         | JObject props \<Rightarrow> serialised props)\<close>
  using assms
  by (cases "nodeicoQueryString opts")
     (simp_all add: nodeico_def truthy_simps str_Some Let_def js_truthy_def typeof_def
        stringify_object stringify_array stringify_null badge_descriptor_linked)

text \<open>
  The theorem at \<^verbatim>\<open>{npmPackageName: "foo", nodeicoQueryString: {a: "1", b: "2"}}\<close>, where
  the image URL ends in \<^verbatim>\<open>?a=1&b=2\<close>; at the query
  \<^verbatim>\<open>{downloads: true, height: 2, stars: ["a b", null]}\<close>; and at the queries \<^verbatim>\<open>true\<close> and
  \<^verbatim>\<open>5\<close>.
\<close>

theorem nodeico_query_witness:
  \<open>nodeico (empty_opts\<lparr>npmPackageName := Some ''foo'',
       nodeicoQueryString := JObject [(''a'', JString ''1''), (''b'', JString ''2'')]\<rparr>) =
     Inr (''<a href="https://www.npmjs.com/package/foo" title="Nodei.co badge">''
          @ ''<img src="https://nodei.co/npm/foo.png?a=1&b=2" alt="Nodei.co badge" /></a>'')
   \<and> nodeico (empty_opts\<lparr>npmPackageName := Some ''foo'',
       nodeicoQueryString := JObject [(''downloads'', JBoolean True), (''height'', JNumber ''2''),
         (''stars'', JArray [JString ''a b'', JNull])]\<rparr>) =
     Inr (''<a href="https://www.npmjs.com/package/foo" title="Nodei.co badge">''
          @ ''<img src="https://nodei.co/npm/foo.png?downloads=true&height=2&stars=a%20b&stars='' @ ''" ''
          @ ''alt="Nodei.co badge" /></a>'')
   \<and> nodeico (empty_opts\<lparr>npmPackageName := Some ''foo'',
       nodeicoQueryString := JBoolean True\<rparr>) =
     Inl (Error ''nodeicoQueryString must be a string or an object'')
   \<and> nodeico (empty_opts\<lparr>npmPackageName := Some ''foo'',
       nodeicoQueryString := JNumber ''5''\<rparr>) =
     Inl (Error ''nodeicoQueryString must be a string or an object'')\<close>
  using
    nodeico_query [of "empty_opts\<lparr>npmPackageName := Some ''foo'',
       nodeicoQueryString := JObject [(''a'', JString ''1''), (''b'', JString ''2'')]\<rparr>" "''foo''"]
    nodeico_query [of "empty_opts\<lparr>npmPackageName := Some ''foo'',
       nodeicoQueryString := JObject [(''downloads'', JBoolean True), (''height'', JNumber ''2''),
         (''stars'', JArray [JString ''a b'', JNull])]\<rparr>" "''foo''"]
    nodeico_query [of "empty_opts\<lparr>npmPackageName := Some ''foo'',
       nodeicoQueryString := JBoolean True\<rparr>" "''foo''"]
    nodeico_query [of "empty_opts\<lparr>npmPackageName := Some ''foo'',
       nodeicoQueryString := JNumber ''5''\<rparr>" "''foo''"]
  by (simp add: empty_opts_def key_value_form_def key_value_fields_def written_values_def
        encode_stringified_def is_finite_def own_property_order_def array_index_def
        qs_escape_def qs_escape_unit_def qs_unescaped_def alphanumeric_def percent_def
        hex_digit_def)

text \<open>
  Claim C6 as first stated fails at three inputs. \<^verbatim>\<open>false\<close> is present and is neither a
  string nor a mapping, yet the call succeeds, with no query. The empty mapping \<^verbatim>\<open>{}\<close> is
  a mapping, yet no \<^verbatim>\<open>?\<close> is appended to the image URL. In the mapping
  \<^verbatim>\<open>{b: "2", 1: "1"}\<close> the key \<^verbatim>\<open>b\<close> is inserted first, yet the image URL ends in
  \<^verbatim>\<open>?1=1&b=2\<close>, not in \<^verbatim>\<open>?b=2&1=1\<close>.
\<close>

theorem nodeico_query_counterexample:
  \<open>nodeico (empty_opts\<lparr>npmPackageName := Some ''foo'',
       nodeicoQueryString := JBoolean False\<rparr>) =
     Inr (''<a href="https://www.npmjs.com/package/foo" title="Nodei.co badge">''
          @ ''<img src="https://nodei.co/npm/foo.png" alt="Nodei.co badge" /></a>'')
   \<and> nodeico (empty_opts\<lparr>npmPackageName := Some ''foo'',
       nodeicoQueryString := JBoolean False\<rparr>) \<noteq>
     Inl (Error ''nodeicoQueryString must be a string or an object'')
   \<and> nodeico (empty_opts\<lparr>npmPackageName := Some ''foo'',
       nodeicoQueryString := JObject []\<rparr>) =
     Inr (''<a href="https://www.npmjs.com/package/foo" title="Nodei.co badge">''
          @ ''<img src="https://nodei.co/npm/foo.png" alt="Nodei.co badge" /></a>'')
   \<and> nodeico (empty_opts\<lparr>npmPackageName := Some ''foo'',
       nodeicoQueryString := JObject []\<rparr>) \<noteq>
     Inr (''<a href="https://www.npmjs.com/package/foo" title="Nodei.co badge">''
          @ ''<img src="https://nodei.co/npm/foo.png?" alt="Nodei.co badge" /></a>'')
   \<and> nodeico (empty_opts\<lparr>npmPackageName := Some ''foo'',
       nodeicoQueryString := JObject [(''b'', JString ''2''), (''1'', JString ''1'')]\<rparr>) =
     Inr (''<a href="https://www.npmjs.com/package/foo" title="Nodei.co badge">''
          @ ''<img src="https://nodei.co/npm/foo.png?1=1&b=2" alt="Nodei.co badge" /></a>'')
   \<and> nodeico (empty_opts\<lparr>npmPackageName := Some ''foo'',
       nodeicoQueryString := JObject [(''b'', JString ''2''), (''1'', JString ''1'')]\<rparr>) \<noteq>
     Inr (''<a href="https://www.npmjs.com/package/foo" title="Nodei.co badge">''
          @ ''<img src="https://nodei.co/npm/foo.png?b=2&1=1" alt="Nodei.co badge" /></a>'')\<close>
  by (simp add: nodeico_def empty_opts_def truthy_simps str_Some js_truthy_def typeof_def
        stringify_def properties_def own_property_order_def array_index_def numeric_value_def
        encode_stringified_def qs_escape_def qs_escape_unit_def qs_unescaped_def
        alphanumeric_def badge_descriptor_linked)

section \<open>Sauce Labs\<close>

text \<open>
  Claim C7. \<open>saucelabs\<close>, given a non-empty \<^verbatim>\<open>saucelabsUsername\<close>: the token is
  \<^verbatim>\<open>saucelabsAuthToken\<close> when that is not empty, and otherwise the environment variable
  \<^verbatim>\<open>SAUCELABS_AUTH_TOKEN\<close>; the token is escaped and written as the \<^verbatim>\<open>auth\<close> parameter of
  the image URL; and when the field and the variable are both absent or empty the call
  fails with the error \<^verbatim>\<open>saucelabsAuthToken is missing\<close>.
\<close>

theorem saucelabs_token:
  assumes "saucelabsUsername opts = Some u" and "u \<noteq> []"
  shows \<open>saucelabs env opts =
     (let token = (if truthy (saucelabsAuthToken opts) then saucelabsAuthToken opts
                   else SAUCELABS_AUTH_TOKEN env)
      in if truthy token
         then Inr (''<a href="https://saucelabs.com/u/'' @ u
                   @ ''" title="Check this project's browser tests on Sauce Labs">''
                   @ ''<img src="https://saucelabs.com/browser-matrix/'' @ u @ ''.svg?auth=''
                   @ escape (the token) @ ''" alt="Sauce Labs Browser Matrix" /></a>'')
         else Inl (Error ''saucelabsAuthToken is missing''))\<close>
  using assms
  by (simp add: saucelabs_def or_else_def badge_descriptor_linked truthy_the truthy_simps
        str_Some Let_def)

text \<open>
  The theorem with the token from the environment, with an explicit token beside the
  environment's, and with neither.
\<close>

theorem saucelabs_token_witness:
  \<open>saucelabs \<lparr>SAUCELABS_AUTH_TOKEN = Some ''e v'', FACEBOOK_APPLICATION_ID = None\<rparr>
       (empty_opts\<lparr>saucelabsUsername := Some ''bevry''\<rparr>) =
     Inr (''<a href="https://saucelabs.com/u/bevry" ''
          @ ''title="Check this project's browser tests on Sauce Labs">''
          @ ''<img src="https://saucelabs.com/browser-matrix/bevry.svg?auth=e%20v" ''
          @ ''alt="Sauce Labs Browser Matrix" /></a>'')
   \<and> saucelabs \<lparr>SAUCELABS_AUTH_TOKEN = Some ''e v'', FACEBOOK_APPLICATION_ID = None\<rparr>
       (empty_opts\<lparr>saucelabsUsername := Some ''bevry'', saucelabsAuthToken := Some ''x''\<rparr>) =
     Inr (''<a href="https://saucelabs.com/u/bevry" ''
          @ ''title="Check this project's browser tests on Sauce Labs">''
          @ ''<img src="https://saucelabs.com/browser-matrix/bevry.svg?auth=x" ''
          @ ''alt="Sauce Labs Browser Matrix" /></a>'')
   \<and> saucelabs \<lparr>SAUCELABS_AUTH_TOKEN = None, FACEBOOK_APPLICATION_ID = None\<rparr>
       (empty_opts\<lparr>saucelabsUsername := Some ''bevry''\<rparr>) =
     Inl (Error ''saucelabsAuthToken is missing'')\<close>
  using
    saucelabs_token [of "empty_opts\<lparr>saucelabsUsername := Some ''bevry''\<rparr>" "''bevry''"
      "\<lparr>SAUCELABS_AUTH_TOKEN = Some ''e v'', FACEBOOK_APPLICATION_ID = None\<rparr>"]
    saucelabs_token
      [of "empty_opts\<lparr>saucelabsUsername := Some ''bevry'', saucelabsAuthToken := Some ''x''\<rparr>"
        "''bevry''" "\<lparr>SAUCELABS_AUTH_TOKEN = Some ''e v'', FACEBOOK_APPLICATION_ID = None\<rparr>"]
    saucelabs_token [of "empty_opts\<lparr>saucelabsUsername := Some ''bevry''\<rparr>" "''bevry''"
      "\<lparr>SAUCELABS_AUTH_TOKEN = None, FACEBOOK_APPLICATION_ID = None\<rparr>"]
  by (simp add: empty_opts_def truthy_simps escape_def escape_unit_def alphanumeric_def
        percent_def hex_digit_def)

text \<open>
  Claim C8. For every configuration object and environment, \<open>saucelabsbm\<close> returns what
  \<open>saucelabs\<close> returns, the same string or the same error. Their metadata differ in one
  property: \<open>saucelabsbm\<close> carries \<^verbatim>\<open>badgeInline = false\<close>, which \<open>saucelabs\<close> does not have.
\<close>

theorem saucelabsbm_is_saucelabs:
  "saucelabsbm env opts = saucelabs env opts
   \<and> run env Saucelabsbm opts = run env Saucelabs opts
   \<and> meta Saucelabsbm = (meta Saucelabs)\<lparr>badgeInline := Some False\<rparr>
   \<and> badgeInline (meta Saucelabs) = None"
  by (simp add: saucelabsbm_def saucelabs_def)

text \<open>The theorem at a call that succeeds and at one that fails.\<close>

theorem saucelabsbm_is_saucelabs_witness:
  "saucelabsbm \<lparr>SAUCELABS_AUTH_TOKEN = Some ''t'', FACEBOOK_APPLICATION_ID = None\<rparr>
       (empty_opts\<lparr>saucelabsUsername := Some ''bevry''\<rparr>)
     = saucelabs \<lparr>SAUCELABS_AUTH_TOKEN = Some ''t'', FACEBOOK_APPLICATION_ID = None\<rparr>
       (empty_opts\<lparr>saucelabsUsername := Some ''bevry''\<rparr>)
   \<and> saucelabsbm \<lparr>SAUCELABS_AUTH_TOKEN = None, FACEBOOK_APPLICATION_ID = None\<rparr> empty_opts
     = saucelabs \<lparr>SAUCELABS_AUTH_TOKEN = None, FACEBOOK_APPLICATION_ID = None\<rparr> empty_opts"
  using
    saucelabsbm_is_saucelabs
      [of "\<lparr>SAUCELABS_AUTH_TOKEN = Some ''t'', FACEBOOK_APPLICATION_ID = None\<rparr>"
        "empty_opts\<lparr>saucelabsUsername := Some ''bevry''\<rparr>"]
    saucelabsbm_is_saucelabs
      [of "\<lparr>SAUCELABS_AUTH_TOKEN = None, FACEBOOK_APPLICATION_ID = None\<rparr>" empty_opts]
  by simp

end
